theory Spec2Isabelle
  imports Complex_Main
begin

section \<open>JavaScript values used by the chat pipeline\<close>

text \<open>
  The model covers the chat module that the server imports as \<open>chatSaved.js\<close> (its
  text is the second module in \<open>src/api/ai.js\<close>): \<open>calculateDistance\<close>,
  \<open>interpretMessageWithGemini\<close>, \<open>filterCandidates\<close>, \<open>scorePlace\<close>,
  \<open>generateBatchExplanations\<close> and \<open>handleChatSaved\<close>, with \<open>getPlacesByListName\<close>
  of the place store. The module of scoring utilities has another
  \<open>scorePlace(place, context)\<close>; the chat module does not call it.

  Strings are lists of 8-bit characters; case folding and the whitespace class are the
  ASCII ones. Numbers are exact reals, so rounding of IEEE doubles is not modelled.
  A property that may be missing, \<open>null\<close> or a value is an \<open>'a option\<close> where the
  code treats \<open>null\<close> and \<open>undefined\<close> alike, and an \<open>'a jsfield\<close> where the code
  tells them apart (\<open>!== null\<close>, \<open>Object.keys\<close>). Every property has the type that
  the data model gives it; a value of another type in its place is outside the model.
\<close>

datatype 'a jsfield = Absent | Null | Val 'a

datatype error = TypeError

text \<open>\<open>String.prototype.toLowerCase\<close> on ASCII: \<open>A\<close>..\<open>Z\<close> go to \<open>a\<close>..\<open>z\<close>.\<close>

definition lowerChar :: "char \<Rightarrow> char" where
  "lowerChar c =
     (case map_of (zip ''ABCDEFGHIJKLMNOPQRSTUVWXYZ'' ''abcdefghijklmnopqrstuvwxyz'') c of
        Some l \<Rightarrow> l
      | None \<Rightarrow> c)"

definition toLowerCase :: "string \<Rightarrow> string" where
  "toLowerCase s = map lowerChar s"

fun startsWith :: "string \<Rightarrow> string \<Rightarrow> bool" where
  "startsWith s [] = True"
| "startsWith [] (c # cs) = False"
| "startsWith (x # xs) (c # cs) = (x = c \<and> startsWith xs cs)"

text \<open>\<open>String.prototype.includes\<close>: the second string occurs in the first.\<close>

fun includesStr :: "string \<Rightarrow> string \<Rightarrow> bool" where
  "includesStr [] n = (n = [])"
| "includesStr (x # xs) n = (startsWith (x # xs) n \<or> includesStr xs n)"

text \<open>Truthiness of a string that may be \<open>null\<close>: the empty string is falsy.\<close>

definition truthyStr :: "string option \<Rightarrow> string option" where
  "truthyStr v = (case v of None \<Rightarrow> None | Some s \<Rightarrow> if s = [] then None else Some s)"

definition truthyField :: "string jsfield \<Rightarrow> string option" where
  "truthyField v = (case v of Val s \<Rightarrow> (if s = [] then None else Some s) | _ \<Rightarrow> None)"

text \<open>Truthiness of a number that may be \<open>null\<close>: zero is falsy.\<close>

definition truthyNum :: "real option \<Rightarrow> real option" where
  "truthyNum v = (case v of None \<Rightarrow> None | Some r \<Rightarrow> if r = 0 then None else Some r)"

text \<open>\<open>x || []\<close> for an array that may be \<open>null\<close>.\<close>

definition orEmpty :: "'a list option \<Rightarrow> 'a list" where
  "orEmpty v = (case v of None \<Rightarrow> [] | Some xs \<Rightarrow> xs)"

section \<open>Data model\<close>

text \<open>
  The records hold the properties that the chat module reads. A saved place is built by
  \<open>addPlace\<close>; its \<open>id\<close>, \<open>notes\<close> and \<open>type\<close> are \<open>place_id\<close>, \<open>placeNotes\<close> and
  \<open>placeType\<close> here. Enriched details are what \<open>normalizePlaceDetails\<close> returns, and
  \<open>slots\<close> is the slot object of a session, with the names of its keys outside the six
  known slots in \<open>s_otherKeys\<close>.
\<close>

record place =
  place_id :: string
  name :: "string option"
  lat :: "real option"
  lng :: "real option"
  address :: "string option"
  listName :: "string option"
  tags :: "string list option"
  placeTags :: "string list option"
  placeNotes :: "string option"
  placeType :: "string option"
  vibe :: "string option"
  priceLevel :: "int option"
  placeId :: "string option"

record categories =
  primary :: "string option"
  primaryDisplayName :: "string option"
  types :: "string list"

record contact =
  phone :: "string option"
  website :: "string option"

record openingHours =
  weekdayText :: "string list option"
  openNow :: "bool jsfield"

record enriched =
  e_placeId :: "string option"
  e_name :: "string option"
  e_address :: "string option"
  e_rating :: "real option"
  e_userRatingCount :: "nat option"
  e_priceLevel :: "int jsfield"
  e_categories :: "categories option"
  e_contact :: "contact option"
  e_openingHours :: "openingHours option"
  e_about :: "string option"

record slots =
  s_category :: "string jsfield"
  s_cuisine :: "string jsfield"
  s_price :: "string jsfield"
  s_vibe :: "string jsfield"
  s_openNow :: "bool jsfield"
  s_distanceKm :: "real jsfield"
  s_otherKeys :: "string list"

text \<open>The object \<open>{}\<close>: no key at all.\<close>

definition emptySlots :: slots where
  "emptySlots = \<lparr> s_category = Absent, s_cuisine = Absent, s_price = Absent,
     s_vibe = Absent, s_openNow = Absent, s_distanceKm = Absent, s_otherKeys = [] \<rparr>"

section \<open>Candidate filter\<close>

text \<open>\<open>getPlacesByListName\<close> of the place store: \<open>places.filter(p => p.listName === listName)\<close>.\<close>

definition getPlacesByListName :: "place list \<Rightarrow> string \<Rightarrow> place list" where
  "getPlacesByListName store lname = filter (\<lambda>p. listName p = Some lname) store"

text \<open>\<open>[...].filter(Boolean).map(t => t.toLowerCase())\<close> on an array of strings and nulls.\<close>

fun filterBoolean :: "string option list \<Rightarrow> string list" where
  "filterBoolean [] = []"
| "filterBoolean (None # xs) = filterBoolean xs"
| "filterBoolean (Some s # xs) = (if s = [] then filterBoolean xs else s # filterBoolean xs)"

definition lowerTruthy :: "string option list \<Rightarrow> string list" where
  "lowerTruthy xs = map toLowerCase (filterBoolean xs)"

definition someIncludes :: "string list \<Rightarrow> string \<Rightarrow> bool" where
  "someIncludes allTags needle = list_ex (\<lambda>tag. includesStr tag needle) allTags"

definition categoryFilter :: "slots \<Rightarrow> place list \<Rightarrow> place list" where
  "categoryFilter sl candidates =
     (case truthyField (s_category sl) of
        None \<Rightarrow> candidates
      | Some c \<Rightarrow>
          filter (\<lambda>p. someIncludes
                   (lowerTruthy (map Some (orEmpty (tags p)) @ map Some (orEmpty (placeTags p))
                      @ [placeType p, name p]))
                   (toLowerCase c)) candidates)"

definition cuisineFilter :: "slots \<Rightarrow> place list \<Rightarrow> place list" where
  "cuisineFilter sl candidates =
     (case truthyField (s_cuisine sl) of
        None \<Rightarrow> candidates
      | Some c \<Rightarrow>
          filter (\<lambda>p. someIncludes
                   (lowerTruthy (map Some (orEmpty (tags p)) @ map Some (orEmpty (placeTags p))
                      @ [name p, placeNotes p]))
                   (toLowerCase c)) candidates)"

text \<open>\<open>slots.price === 'cheap' ? [0, 1] : [2, 3]\<close>\<close>

definition targetLevels :: "string \<Rightarrow> int list" where
  "targetLevels pr = (if pr = ''cheap'' then [0, 1] else [2, 3])"

text \<open>\<open>slots.price && slots.price !== 'any'\<close>\<close>

definition activePrice :: "slots \<Rightarrow> string option" where
  "activePrice sl =
     (case truthyField (s_price sl) of
        None \<Rightarrow> None
      | Some pr \<Rightarrow> if pr \<noteq> ''any'' then Some pr else None)"

definition priceFilter :: "slots \<Rightarrow> place list \<Rightarrow> place list" where
  "priceFilter sl candidates =
     (case activePrice sl of
        None \<Rightarrow> candidates
      | Some pr \<Rightarrow>
          filter (\<lambda>p. case priceLevel p of
                        None \<Rightarrow> True
                      | Some l \<Rightarrow> l \<in> set (targetLevels pr)) candidates)"

text \<open>
  \<open>filterCandidates(places, slots, listName = null)\<close>; \<open>store\<close> is the place store that
  \<open>getPlacesByListName\<close> reads.
\<close>

definition filterCandidates :: "place list \<Rightarrow> place list \<Rightarrow> slots \<Rightarrow> string option \<Rightarrow> place list" where
  "filterCandidates store places sl lname =
     (let candidates = (case truthyStr lname of
                          Some l \<Rightarrow> getPlacesByListName store l
                        | None \<Rightarrow> places);
          candidates = categoryFilter sl candidates;
          candidates = cuisineFilter sl candidates;
          candidates = priceFilter sl candidates
      in take 50 candidates)"

section \<open>Distance utility\<close>

text \<open>\<open>Math.atan2(y, x)\<close>\<close>

definition atan2 :: "real \<Rightarrow> real \<Rightarrow> real" where
  "atan2 y x =
     (if 0 < x then arctan (y / x)
      else if x < 0 then (if 0 \<le> y then arctan (y / x) + pi else arctan (y / x) - pi)
      else if 0 < y then pi / 2
      else if y < 0 then - (pi / 2)
      else 0)"

text \<open>
  Haversine distance in kilometres. \<open>Math.sqrt\<close> of a negative number is \<open>NaN\<close>, and
  \<open>NaN\<close> then reaches the result; \<open>None\<close> stands for it.
\<close>

definition calculateDistance :: "real \<Rightarrow> real \<Rightarrow> real \<Rightarrow> real \<Rightarrow> real option" where
  "calculateDistance lat1 lng1 lat2 lng2 =
     (let R = 6371;
          dLat = ((lat2 - lat1) * pi) / 180;
          dLng = ((lng2 - lng1) * pi) / 180;
          a = sin (dLat / 2) * sin (dLat / 2) +
              cos ((lat1 * pi) / 180) * cos ((lat2 * pi) / 180) * sin (dLng / 2) * sin (dLng / 2)
      in if a < 0 \<or> 1 - a < 0 then None
         else Some (R * (2 * atan2 (sqrt a) (sqrt (1 - a)))))"

section \<open>Scorer\<close>

text \<open>\<open>enrichedData?.categories?.primaryDisplayName\<close>\<close>

definition primaryDisplayNameOf :: "enriched option \<Rightarrow> string option" where
  "primaryDisplayNameOf enrichedData =
     (case enrichedData of
        None \<Rightarrow> None
      | Some d \<Rightarrow> (case e_categories d of None \<Rightarrow> None | Some c \<Rightarrow> primaryDisplayName c))"

text \<open>\<open>enrichedData?.openingHours?.openNow\<close>\<close>

definition openNowOf :: "enriched option \<Rightarrow> bool jsfield" where
  "openNowOf enrichedData =
     (case enrichedData of
        None \<Rightarrow> Absent
      | Some d \<Rightarrow> (case e_openingHours d of None \<Rightarrow> Absent | Some h \<Rightarrow> openNow h))"

text \<open>\<open>enrichedData?.rating\<close>\<close>

definition ratingOf :: "enriched option \<Rightarrow> real option" where
  "ratingOf enrichedData = (case enrichedData of None \<Rightarrow> None | Some d \<Rightarrow> e_rating d)"

text \<open>Category match (20 points).\<close>

definition categoryTags :: "place \<Rightarrow> enriched option \<Rightarrow> string list" where
  "categoryTags p enrichedData =
     lowerTruthy (map Some (orEmpty (tags p)) @ map Some (orEmpty (placeTags p))
                    @ [placeType p, primaryDisplayNameOf enrichedData])"

definition categoryScore :: "place \<Rightarrow> slots \<Rightarrow> enriched option \<Rightarrow> real" where
  "categoryScore p sl enrichedData =
     (case truthyField (s_category sl) of
        None \<Rightarrow> 0
      | Some c \<Rightarrow>
          if someIncludes (categoryTags p enrichedData) (toLowerCase c) then 20 else 0)"

text \<open>Cuisine match (15 points).\<close>

definition cuisineTags :: "place \<Rightarrow> enriched option \<Rightarrow> string list" where
  "cuisineTags p enrichedData =
     lowerTruthy (map Some (orEmpty (tags p)) @ map Some (orEmpty (placeTags p))
                    @ [name p, placeNotes p, primaryDisplayNameOf enrichedData])"

definition cuisineScore :: "place \<Rightarrow> slots \<Rightarrow> enriched option \<Rightarrow> real" where
  "cuisineScore p sl enrichedData =
     (case truthyField (s_cuisine sl) of
        None \<Rightarrow> 0
      | Some c \<Rightarrow>
          if someIncludes (cuisineTags p enrichedData) (toLowerCase c) then 15 else 0)"

text \<open>
  Price match (10 points). The guard is \<open>enrichedData?.priceLevel !== null\<close>: with
  \<open>enrichedData\<close> null the left side is \<open>undefined\<close>, the guard holds, and the body's
  \<open>enrichedData.priceLevel\<close> raises a TypeError. With the property missing on an
  object, \<open>targetLevels.includes(undefined)\<close> is false.
\<close>

definition priceScore :: "slots \<Rightarrow> enriched option \<Rightarrow> error + real" where
  "priceScore sl enrichedData =
     (case activePrice sl of
        None \<Rightarrow> Inr 0
      | Some pr \<Rightarrow>
          (case enrichedData of
             None \<Rightarrow> Inl TypeError
           | Some d \<Rightarrow>
               (case e_priceLevel d of
                  Null \<Rightarrow> Inr 0
                | Absent \<Rightarrow> Inr 0
                | Val l \<Rightarrow> if l \<in> set (targetLevels pr) then Inr 10 else Inr 0)))"

text \<open>Open now (15 points, 5 for a matching "closed").\<close>

definition openNowScore :: "slots \<Rightarrow> enriched option \<Rightarrow> real" where
  "openNowScore sl enrichedData =
     (if s_openNow sl = Val True \<and> openNowOf enrichedData = Val True then 15
      else if s_openNow sl = Val False \<and> openNowOf enrichedData = Val False then 5
      else 0)"

text \<open>Rating boost (10 points max).\<close>

definition ratingScore :: "enriched option \<Rightarrow> real" where
  "ratingScore enrichedData =
     (case truthyNum (ratingOf enrichedData) of
        None \<Rightarrow> 0
      | Some r \<Rightarrow> min (r * 2) 10)"

text \<open>
  Distance (10 points max). \<open>slots.distanceKm && distance <= slots.distanceKm\<close>, else
  \<open>distance <= 5\<close>; a comparison with \<open>NaN\<close> is false.
\<close>

definition withinKm :: "real option \<Rightarrow> real \<Rightarrow> bool" where
  "withinKm distance k = (case distance of None \<Rightarrow> False | Some d \<Rightarrow> d \<le> k)"

definition truthyKm :: "real jsfield \<Rightarrow> real option" where
  "truthyKm v = (case v of Val r \<Rightarrow> (if r = 0 then None else Some r) | _ \<Rightarrow> None)"

definition distanceScore :: "place \<Rightarrow> slots \<Rightarrow> (real \<times> real) option \<Rightarrow> real" where
  "distanceScore p sl userLocation =
     (case userLocation of
        None \<Rightarrow> 0
      | Some (ulat, ulng) \<Rightarrow>
          (case truthyNum (lat p) of
             None \<Rightarrow> 0
           | Some plat \<Rightarrow>
               (case truthyNum (lng p) of
                  None \<Rightarrow> 0
                | Some plng \<Rightarrow>
                    (let distance = calculateDistance ulat ulng plat plng
                     in if (case truthyKm (s_distanceKm sl) of
                              None \<Rightarrow> False
                            | Some k \<Rightarrow> withinKm distance k) then 10
                        else if withinKm distance 5 then 5
                        else 0))))"

text \<open>Vibe match (10 points).\<close>

definition vibeScore :: "place \<Rightarrow> slots \<Rightarrow> real" where
  "vibeScore p sl =
     (case truthyField (s_vibe sl) of
        None \<Rightarrow> 0
      | Some sv \<Rightarrow>
          (case truthyStr (vibe p) of
             None \<Rightarrow> 0
           | Some pv \<Rightarrow> if includesStr (toLowerCase pv) (toLowerCase sv) then 10 else 0))"

text \<open>
  \<open>scorePlace(place, slots, enrichedData = null, userLocation = null)\<close>: the rules add
  to \<open>score\<close> in the order of the source; the price rule is the only one that can raise.
  The amounts are added as exact reals here; the code adds them as doubles.
\<close>

definition scorePlace :: "place \<Rightarrow> slots \<Rightarrow> enriched option \<Rightarrow> (real \<times> real) option \<Rightarrow> error + real" where
  "scorePlace p sl enrichedData userLocation =
     (let score = 0;
          score = score + categoryScore p sl enrichedData;
          score = score + cuisineScore p sl enrichedData
      in case priceScore sl enrichedData of
           Inl err \<Rightarrow> Inl err
         | Inr pts \<Rightarrow>
             (let score = score + pts;
                  score = score + openNowScore sl enrichedData;
                  score = score + ratingScore enrichedData;
                  score = score + distanceScore p sl userLocation;
                  score = score + vibeScore p sl
              in Inr score))"

section \<open>Environment\<close>

text \<open>
  What the module reaches outside itself: the two credentials in \<open>process.env\<close>, the
  language provider behind \<open>fetch\<close>, \<open>JSON.parse\<close>, \<open>fetchPlaceDetails\<close>, the place
  store, number formatting and the clock.
\<close>

record candidate =
  c_place :: place
  c_enrichedData :: "enriched option"

record scored =
  sc_place :: place
  sc_enrichedData :: "enriched option"
  sc_score :: real

text \<open>
  A prompt is a text computed from these arguments; the provider's answer is taken as a
  function of them.
\<close>

datatype prompt = InterpretPrompt string slots | ExplainPrompt "scored list" slots

text \<open>
  One call of the provider: \<open>fetch\<close> rejects, the status is not ok, the body is not
  readable as the expected JSON, or the body arrives and
  \<open>responseData.choices?.[0]?.message?.content\<close> is read from it.
\<close>

datatype llm_response = FetchRejected | HttpNotOk | BodyUnreadable | Body "string option"

text \<open>The object that the interpreter reads from a parsed answer, field by field.\<close>

record intentJson =
  j_intentType :: "string option"
  j_slots :: "slots option"
  j_targetPlaceName :: "string option"
  j_questionType :: "string option"
  j_needsFollowUp :: "bool option"
  j_questions :: "string list option"
  j_assistantMessage :: "string option"

text \<open>
  A value returned by \<open>JSON.parse\<close>: \<open>null\<close>, an object, an array of strings, or any
  other value (a number, a string, a boolean).
\<close>

datatype json = JNull | JObject intentJson | JArray "string list" | JOther

record env =
  OPENROUTER_API_KEY :: "string option"
  GEMINI_API_KEY :: "string option"
  complete :: "prompt \<Rightarrow> llm_response"
  jsonParse :: "string \<Rightarrow> json option"
  fetchPlaceDetails :: "string option \<Rightarrow> error + enriched option"
  getAllPlaces :: "place list"
  numberToString :: "real \<Rightarrow> string"
  toLocaleString :: "nat \<Rightarrow> string"
  dateNow :: string

text \<open>\<open>process.env.OPENROUTER_API_KEY || process.env.GEMINI_API_KEY || null\<close>\<close>

definition getOpenRouterApiKey :: "env \<Rightarrow> string option" where
  "getOpenRouterApiKey ev =
     (case truthyStr (OPENROUTER_API_KEY ev) of
        Some k \<Rightarrow> Some k
      | None \<Rightarrow> truthyStr (GEMINI_API_KEY ev))"

text \<open>\<open>x || d\<close> for a string that may be \<open>null\<close>.\<close>

definition orStr :: "string option \<Rightarrow> string \<Rightarrow> string" where
  "orStr v d = (case truthyStr v of None \<Rightarrow> d | Some s \<Rightarrow> s)"

text \<open>
  \<open>text.match(/l[\s\S]*r/)\<close> for two different delimiter characters: the greedy match
  runs from the first \<open>l\<close> to the last \<open>r\<close> after it.
\<close>

definition matchDelimited :: "char \<Rightarrow> char \<Rightarrow> string \<Rightarrow> string option" where
  "matchDelimited l r txt =
     (case dropWhile (\<lambda>c. c \<noteq> l) txt of
        [] \<Rightarrow> None
      | _ # body \<Rightarrow>
          if r \<in> set body then Some (l # rev (dropWhile (\<lambda>c. c \<noteq> r) (rev body)))
          else None)"

text \<open>
  \<open>const text = content || dflt; const jsonMatch = text.match(...); const jsonText =
  jsonMatch ? jsonMatch[0] : text\<close>
\<close>

definition jsonTextOf :: "char \<Rightarrow> char \<Rightarrow> string \<Rightarrow> string option \<Rightarrow> string" where
  "jsonTextOf l r dflt content =
     (let txt = orStr content dflt
      in case matchDelimited l r txt of Some m \<Rightarrow> m | None \<Rightarrow> txt)"

section \<open>Intent interpreter\<close>

record intent =
  intentType :: string
  i_slots :: slots
  targetPlaceName :: "string option"
  questionType :: "string option"
  needsFollowUp :: bool
  questions :: "string list"
  assistantMessage :: string

text \<open>The object returned when no key is configured and from the \<open>catch\<close> block.\<close>

definition fallbackInterpretation :: "slots \<Rightarrow> intent" where
  "fallbackInterpretation currentSlots =
     \<lparr> intentType = ''recommendations'',
       i_slots = currentSlots,
       targetPlaceName = None,
       questionType = None,
       needsFollowUp = False,
       questions = [],
       assistantMessage =
         ''I can help you find places from your saved lists. What are you looking for?'' \<rparr>"

text \<open>
  The \<open>return\<close> at the end of the \<open>try\<close> block. Reading a property of \<open>null\<close> raises
  and lands in the \<open>catch\<close>; reading one of a number, string, boolean or array gives
  \<open>undefined\<close>.
\<close>

definition interpretationOf :: "json \<Rightarrow> slots \<Rightarrow> intent" where
  "interpretationOf result currentSlots =
     (case result of
        JNull \<Rightarrow> fallbackInterpretation currentSlots
      | JObject r \<Rightarrow>
          \<lparr> intentType = orStr (j_intentType r) ''recommendations'',
            i_slots = (case j_slots r of None \<Rightarrow> currentSlots | Some s \<Rightarrow> s),
            targetPlaceName = truthyStr (j_targetPlaceName r),
            questionType = truthyStr (j_questionType r),
            needsFollowUp = (case j_needsFollowUp r of None \<Rightarrow> False | Some b \<Rightarrow> b),
            questions = orEmpty (j_questions r),
            assistantMessage =
              orStr (j_assistantMessage r) ''I can help you find places. What are you looking for?'' \<rparr>
      | _ \<Rightarrow>
          \<lparr> intentType = ''recommendations'',
            i_slots = currentSlots,
            targetPlaceName = None,
            questionType = None,
            needsFollowUp = False,
            questions = [],
            assistantMessage = ''I can help you find places. What are you looking for?'' \<rparr>)"

definition interpretMessageWithGemini :: "env \<Rightarrow> string \<Rightarrow> slots \<Rightarrow> intent" where
  "interpretMessageWithGemini ev message currentSlots =
     (case getOpenRouterApiKey ev of
        None \<Rightarrow> fallbackInterpretation currentSlots
      | Some apiKey \<Rightarrow>
          (case complete ev (InterpretPrompt message currentSlots) of
             FetchRejected \<Rightarrow> fallbackInterpretation currentSlots
           | HttpNotOk \<Rightarrow> fallbackInterpretation currentSlots
           | BodyUnreadable \<Rightarrow> fallbackInterpretation currentSlots
           | Body content \<Rightarrow>
               (let jsonText = jsonTextOf (CHR ''{'') (CHR ''}'') ''{}'' content
                in case jsonParse ev jsonText of
                     None \<Rightarrow> fallbackInterpretation currentSlots
                   | Some result \<Rightarrow> interpretationOf result currentSlots)))"

section \<open>Explanation generator\<close>

text \<open>
  The characters between the rating and \<open>rating\<close> in the template literal (a star
  emoji), as the bytes that the source file has there.
\<close>

definition starEmoji :: string where
  "starEmoji = [CHR 0xC3, CHR 0xA2, CHR 0xC2, CHR 0xAD]"

text \<open>
  \<open>`Great ${enrichedData?.categories?.primaryDisplayName || 'place'} with
  ${enrichedData?.rating ? `${enrichedData.rating}* rating` : 'good reviews'}.`\<close>
\<close>

definition templateExplanation :: "env \<Rightarrow> enriched option \<Rightarrow> string" where
  "templateExplanation ev enrichedData =
     ''Great '' @ orStr (primaryDisplayNameOf enrichedData) ''place'' @ '' with '' @
     (case truthyNum (ratingOf enrichedData) of
        None \<Rightarrow> ''good reviews''
      | Some r \<Rightarrow> numberToString ev r @ starEmoji @ '' rating'') @ ''.''"

definition fallbackExplanations :: "env \<Rightarrow> scored list \<Rightarrow> string list" where
  "fallbackExplanations ev top5Places =
     map (\<lambda>c. templateExplanation ev (sc_enrichedData c)) top5Places"

text \<open>
  Building the prompt raises only in \<open>'$'.repeat(enrichedData.priceLevel)\<close>, a RangeError
  for a negative count; it is inside the \<open>try\<close>.
\<close>

definition promptRaises :: "scored list \<Rightarrow> bool" where
  "promptRaises top5Places =
     list_ex (\<lambda>c. case sc_enrichedData c of
                    None \<Rightarrow> False
                  | Some d \<Rightarrow> (case e_priceLevel d of Val l \<Rightarrow> l < 0 | _ \<Rightarrow> False))
             top5Places"

definition generateBatchExplanations :: "env \<Rightarrow> scored list \<Rightarrow> slots \<Rightarrow> string list" where
  "generateBatchExplanations ev top5Places sl =
     (case getOpenRouterApiKey ev of
        None \<Rightarrow> fallbackExplanations ev top5Places
      | Some apiKey \<Rightarrow>
          if promptRaises top5Places then fallbackExplanations ev top5Places
          else
            (case complete ev (ExplainPrompt top5Places sl) of
               FetchRejected \<Rightarrow> fallbackExplanations ev top5Places
             | HttpNotOk \<Rightarrow> fallbackExplanations ev top5Places
             | BodyUnreadable \<Rightarrow> fallbackExplanations ev top5Places
             | Body content \<Rightarrow>
                 (let jsonText = jsonTextOf (CHR ''['') (CHR '']'') ''[]'' content
                  in case jsonParse ev jsonText of
                       None \<Rightarrow> fallbackExplanations ev top5Places
                     | Some (JArray explanations) \<Rightarrow>
                         if length explanations = length top5Places then explanations
                         else fallbackExplanations ev top5Places
                     | Some _ \<Rightarrow> fallbackExplanations ev top5Places)))"

section \<open>Chat orchestrator\<close>

record chatContext =
  sessionId :: "string option"
  ctx_listName :: "string option"
  userLocation :: "(real \<times> real) option"
  ctx_slots :: "slots option"

text \<open>\<open>req.body\<close>; a \<open>message\<close> that is missing or not a string is \<open>None\<close>.\<close>

record request =
  req_message :: "string option"
  req_context :: "chatContext option"

record result =
  r_id :: string
  r_placeId :: "string option"
  r_name :: "string option"
  r_address :: "string option"
  r_rating :: "real option"
  r_userRatingCount :: "nat option"
  r_priceLevel :: "int option"
  r_primaryType :: "string option"
  r_primaryTypeDisplayName :: "string option"
  r_types :: "string list"
  r_openNow :: "bool option"
  r_openingHoursText :: "string option"
  r_reviewSummary :: "string option"
  r_why :: string
  r_score :: real
  r_lat :: "real option"
  r_lng :: "real option"

record chatResponse =
  mode :: string
  resp_assistantMessage :: string
  updatedSlots :: slots
  results :: "result list"
  optionalQuestion :: "string jsfield"

datatype response = Status400 string | Status500 error | Json chatResponse

text \<open>The calls that a turn makes to the other components, in order.\<close>

datatype call =
    CallInterpreter string slots
  | CallPlaceDetails "string option"
  | CallExplanations "scored list" slots

record outcome =
  response :: response
  sessions :: "string \<Rightarrow> slots option"
  calls :: "call list"

subsection \<open>Greeting detection\<close>

text \<open>The class \<open>\s\<close>, restricted to ASCII.\<close>

definition isSpace :: "char \<Rightarrow> bool" where
  "isSpace c = (c \<in> set [CHR '' '', CHR 0x09, CHR 0x0A, CHR 0x0B, CHR 0x0C, CHR 0x0D])"

definition trim :: "string \<Rightarrow> string" where
  "trim s = rev (dropWhile isSpace (rev (dropWhile isSpace s)))"

text \<open>
  \<open>s.split(/\s+/)\<close>: \<open>cur\<close> is the current piece, reversed; \<open>inSep\<close> says that the
  previous character belonged to a separator.
\<close>

fun splitWs :: "bool \<Rightarrow> string \<Rightarrow> string \<Rightarrow> string list" where
  "splitWs inSep cur [] = [rev cur]"
| "splitWs inSep cur (c # cs) =
     (if isSpace c then (if inSep then splitWs True cur cs else rev cur # splitWs True [] cs)
      else splitWs False (c # cur) cs)"

text \<open>The tail \<open>(\s|$|[!.,?])\<close> of both patterns, tried on what follows the word.\<close>

definition boundary :: "string \<Rightarrow> bool" where
  "boundary rest = (case rest of [] \<Rightarrow> True | c # _ \<Rightarrow> isSpace c \<or> c \<in> set ''!.,?'')"

definition wordAt :: "string list \<Rightarrow> string \<Rightarrow> bool" where
  "wordAt ws s = list_ex (\<lambda>w. startsWith s w \<and> boundary (drop (length w) s)) ws"

text \<open>\<open>/^(hi|hello|hey|greetings|howdy|hi there|hello there|hey there)(\s|$|[!.,?])/i\<close>\<close>

definition greetingPattern1 :: "string \<Rightarrow> bool" where
  "greetingPattern1 s =
     wordAt [''hi'', ''hello'', ''hey'', ''greetings'', ''howdy'', ''hi there'', ''hello there'',
             ''hey there''] s"

text \<open>\<open>/^(\s|^)(hi|hello|hey)(\s|$|[!.,?])/i\<close>\<close>

definition greetingPattern2 :: "string \<Rightarrow> bool" where
  "greetingPattern2 s =
     ((case s of [] \<Rightarrow> False | c # rest \<Rightarrow> isSpace c \<and> wordAt [''hi'', ''hello'', ''hey''] rest)
      \<or> wordAt [''hi'', ''hello'', ''hey''] s)"

definition isGreeting :: "string \<Rightarrow> bool" where
  "isGreeting message =
     (let messageLower = trim (toLowerCase message)
      in (greetingPattern1 messageLower \<or> greetingPattern2 messageLower)
         \<and> length (splitWs False [] messageLower) \<le> 5)"

text \<open>\<open>Object.keys(slots)\<close>\<close>

definition present :: "'a jsfield \<Rightarrow> string \<Rightarrow> string list" where
  "present v k = (if v = Absent then [] else [k])"

definition slotKeys :: "slots \<Rightarrow> string list" where
  "slotKeys sl =
     present (s_category sl) ''category'' @ present (s_cuisine sl) ''cuisine'' @
     present (s_price sl) ''price'' @ present (s_vibe sl) ''vibe'' @
     present (s_openNow sl) ''openNow'' @ present (s_distanceKm sl) ''distanceKm'' @
     s_otherKeys sl"

subsection \<open>Informational answers\<close>

text \<open>\<open>${targetPlace.name}\<close> in a template literal.\<close>

definition nameText :: "place \<Rightarrow> string" where
  "nameText p = (case name p of None \<Rightarrow> ''null'' | Some n \<Rightarrow> n)"

text \<open>\<open>xs.join(sep)\<close>\<close>

fun joinWith :: "string \<Rightarrow> string list \<Rightarrow> string" where
  "joinWith sep [] = []"
| "joinWith sep [x] = x"
| "joinWith sep (x # y # ys) = x @ sep @ joinWith sep (y # ys)"

text \<open>
  \<open>allPlaces.find(p => p.name && p.name.toLowerCase().includes(searchName) ||
  searchName.includes(p.name.toLowerCase()))\<close>: the right operand reads \<open>p.name\<close>
  unguarded.
\<close>

fun findFuzzy :: "string \<Rightarrow> place list \<Rightarrow> error + place option" where
  "findFuzzy searchName [] = Inr None"
| "findFuzzy searchName (p # ps) =
     (case name p of
        None \<Rightarrow> Inl TypeError
      | Some n \<Rightarrow>
          if (n \<noteq> [] \<and> includesStr (toLowerCase n) searchName)
             \<or> includesStr searchName (toLowerCase n)
          then Inr (Some p)
          else findFuzzy searchName ps)"

definition findTargetPlace :: "place list \<Rightarrow> string option \<Rightarrow> error + place option" where
  "findTargetPlace allPlaces target =
     (case truthyStr target of
        None \<Rightarrow> Inr None
      | Some t \<Rightarrow>
          (let searchName = toLowerCase t
           in case List.find (\<lambda>p. case truthyStr (name p) of
                                     None \<Rightarrow> False
                                   | Some n \<Rightarrow> toLowerCase n = searchName) allPlaces of
                Some p \<Rightarrow> Inr (Some p)
              | None \<Rightarrow> findFuzzy searchName allPlaces))"

text \<open>The emoji of the summary lines, as the bytes that the source file has there.\<close>

definition pinEmoji :: string where
  "pinEmoji = [CHR 0xC3, CHR 0xB0, CHR 0xC5, CHR 0xB8, CHR 0xE2, CHR 0x80, CHR 0x9C]"

definition clockEmoji :: string where
  "clockEmoji = [CHR 0xC3, CHR 0xB0, CHR 0xC5, CHR 0xB8, CHR 0xE2, CHR 0x80, CHR 0xA2]"

definition phoneEmoji :: string where
  "phoneEmoji = [CHR 0xC3, CHR 0xB0, CHR 0xC5, CHR 0xB8, CHR 0xE2, CHR 0x80, CHR 0x9C, CHR 0xC5,
                 CHR 0xBE]"

definition globeEmoji :: string where
  "globeEmoji = [CHR 0xC3, CHR 0xB0, CHR 0xC5, CHR 0xB8, CHR 0xC5, CHR 0x92]"

text \<open>\<open>reviewCount > 0 ? ` (${reviewCount.toLocaleString()} reviews)` : ''\<close>\<close>

definition reviewsText :: "env \<Rightarrow> enriched option \<Rightarrow> string" where
  "reviewsText ev enrichedData =
     (let reviewCount = (case enrichedData of
                           None \<Rightarrow> 0
                         | Some d \<Rightarrow> (case e_userRatingCount d of None \<Rightarrow> 0 | Some n \<Rightarrow> n))
      in if reviewCount > 0 then '' ('' @ toLocaleString ev reviewCount @ '' reviews)'' else [])"

definition addressOf :: "enriched option \<Rightarrow> string option" where
  "addressOf enrichedData = (case enrichedData of None \<Rightarrow> None | Some d \<Rightarrow> truthyStr (e_address d))"

definition phoneOf :: "enriched option \<Rightarrow> string option" where
  "phoneOf enrichedData =
     (case enrichedData of
        None \<Rightarrow> None
      | Some d \<Rightarrow> (case e_contact d of None \<Rightarrow> None | Some c \<Rightarrow> truthyStr (phone c)))"

definition websiteOf :: "enriched option \<Rightarrow> string option" where
  "websiteOf enrichedData =
     (case enrichedData of
        None \<Rightarrow> None
      | Some d \<Rightarrow> (case e_contact d of None \<Rightarrow> None | Some c \<Rightarrow> truthyStr (website c)))"

text \<open>
  \<open>enrichedData.openingHours\<close> read after the guard
  \<open>enrichedData?.openingHours?.openNow !== null\<close>: a TypeError when \<open>enrichedData\<close> or
  its \<open>openingHours\<close> is null.
\<close>

definition openingHoursOrRaise :: "enriched option \<Rightarrow> error + openingHours" where
  "openingHoursOrRaise enrichedData =
     (case enrichedData of
        None \<Rightarrow> Inl TypeError
      | Some d \<Rightarrow> (case e_openingHours d of None \<Rightarrow> Inl TypeError | Some h \<Rightarrow> Inr h))"

text \<open>The answer text of the informational branch, by question type.\<close>

definition informationalAnswer :: "env \<Rightarrow> place \<Rightarrow> string option \<Rightarrow> enriched option \<Rightarrow> error + string" where
  "informationalAnswer ev targetPlace qt enrichedData =
     (if qt = Some ''openingHours'' \<or> qt = Some ''openNow'' then
        (if openNowOf enrichedData \<noteq> Null then
           (case openingHoursOrRaise enrichedData of
              Inl err \<Rightarrow> Inl err
            | Inr h \<Rightarrow>
                (let isOpen = (openNow h = Val True);
                     answer = nameText targetPlace @ '' is currently '' @
                              (if isOpen then ''**open**'' else ''**closed**'') @ ''.''
                 in case weekdayText h of
                      None \<Rightarrow> Inr answer
                    | Some w \<Rightarrow>
                        if length w > 0
                        then Inr (answer @ ''\<newline>\<newline>Opening hours:\<newline>'' @
                                  joinWith ''\<newline>'' (take 7 w))
                        else Inr answer))
         else Inr (''I don't have opening hours information for '' @ nameText targetPlace @ ''.''))
      else if qt = Some ''rating'' then
        (case truthyNum (ratingOf enrichedData) of
           Some r \<Rightarrow>
             Inr (nameText targetPlace @ '' has a rating of **'' @ numberToString ev r @ starEmoji @
                  ''**'' @ reviewsText ev enrichedData @ ''.'')
         | None \<Rightarrow> Inr (''I don't have rating information for '' @ nameText targetPlace @ ''.''))
      else if qt = Some ''address'' then
        Inr (nameText targetPlace @ '' is located at **'' @
             (case addressOf enrichedData of
                Some a \<Rightarrow> a
              | None \<Rightarrow> orStr (address targetPlace) ''address not available'') @ ''**.'')
      else if qt = Some ''phone'' then
        (case phoneOf enrichedData of
           Some ph \<Rightarrow> Inr (''You can reach '' @ nameText targetPlace @ '' at **'' @ ph @ ''**.'')
         | None \<Rightarrow>
             Inr (''I don't have phone number information for '' @ nameText targetPlace @ ''.''))
      else if qt = Some ''website'' then
        (case websiteOf enrichedData of
           Some w \<Rightarrow>
             Inr (''You can visit '' @ nameText targetPlace @ '''s website at **'' @ w @ ''**.'')
         | None \<Rightarrow> Inr (''I don't have website information for '' @ nameText targetPlace @ ''.''))
      else
        (let answer = ''Here's what I know about '' @ nameText targetPlace @ '':\<newline>\<newline>'';
             answer = (case addressOf enrichedData of
                         Some a \<Rightarrow> answer @ pinEmoji @ '' Address: '' @ a @ ''\<newline>''
                       | None \<Rightarrow> answer);
             answer = (case truthyNum (ratingOf enrichedData) of
                         Some r \<Rightarrow> answer @ starEmoji @ '' Rating: '' @ numberToString ev r @
                                   reviewsText ev enrichedData @ ''\<newline>''
                       | None \<Rightarrow> answer)
         in case (if openNowOf enrichedData \<noteq> Null then
                    (case openingHoursOrRaise enrichedData of
                       Inl err \<Rightarrow> Inl err
                     | Inr h \<Rightarrow>
                         Inr (answer @ clockEmoji @ '' Status: '' @
                              (if openNow h = Val True then ''Open now'' else ''Closed'') @
                              ''\<newline>''))
                  else Inr answer) of
              Inl err \<Rightarrow> Inl err
            | Inr answer \<Rightarrow>
                (let answer = (case phoneOf enrichedData of
                                 Some ph \<Rightarrow> answer @ phoneEmoji @ '' Phone: '' @ ph @ ''\<newline>''
                               | None \<Rightarrow> answer);
                     answer = (case websiteOf enrichedData of
                                 Some w \<Rightarrow> answer @ globeEmoji @ '' Website: '' @ w @ ''\<newline>''
                               | None \<Rightarrow> answer)
                 in Inr answer)))"

subsection \<open>Enrichment gate\<close>

text \<open>\<open>p.placeId\<close> as a condition.\<close>

definition hasPlaceId :: "place \<Rightarrow> bool" where
  "hasPlaceId p = (truthyStr (placeId p) \<noteq> None)"

text \<open>\<open>scoredCandidates.filter(p => p.placeId).slice(0, 20)\<close>\<close>

definition topCandidatesForEnrichment :: "place list \<Rightarrow> place list" where
  "topCandidatesForEnrichment scoredCandidates = take 20 (filter hasPlaceId scoredCandidates)"

text \<open>One element of the \<open>Promise.all\<close>: a rejected fetch degrades to \<open>enrichedData: null\<close>.\<close>

definition enrichCandidate :: "env \<Rightarrow> place \<Rightarrow> candidate" where
  "enrichCandidate ev p =
     \<lparr> c_place = p,
       c_enrichedData = (case fetchPlaceDetails ev (placeId p) of
                           Inl err \<Rightarrow> None
                         | Inr enrichedData \<Rightarrow> enrichedData) \<rparr>"

definition enrichedCandidates :: "env \<Rightarrow> place list \<Rightarrow> candidate list" where
  "enrichedCandidates ev scoredCandidates =
     map (enrichCandidate ev) (topCandidatesForEnrichment scoredCandidates)"

text \<open>
  \<open>scoredCandidates.filter(p => !p.placeId).slice(0, 10).map(place => ({ place,
  enrichedData: null }))\<close>
\<close>

definition placesWithoutEnrichment :: "place list \<Rightarrow> candidate list" where
  "placesWithoutEnrichment scoredCandidates =
     map (\<lambda>p. \<lparr> c_place = p, c_enrichedData = None \<rparr>)
         (take 10 (filter (\<lambda>p. \<not> hasPlaceId p) scoredCandidates))"

text \<open>\<open>[...enrichedCandidates, ...placesWithoutEnrichment]\<close>\<close>

definition allCandidatesForRanking :: "env \<Rightarrow> place list \<Rightarrow> candidate list" where
  "allCandidatesForRanking ev scoredCandidates =
     enrichedCandidates ev scoredCandidates @ placesWithoutEnrichment scoredCandidates"

subsection \<open>Scoring and ranking\<close>

text \<open>
  \<open>allCandidatesForRanking.map(...)\<close> with \<open>scorePlace\<close> in the callback: the first
  exception ends the map.
\<close>

fun scoreAll :: "slots \<Rightarrow> (real \<times> real) option \<Rightarrow> candidate list \<Rightarrow> error + scored list" where
  "scoreAll sl loc [] = Inr []"
| "scoreAll sl loc (c # cs) =
     (case scorePlace (c_place c) sl (c_enrichedData c) loc of
        Inl err \<Rightarrow> Inl err
      | Inr s \<Rightarrow>
          (case scoreAll sl loc cs of
             Inl err \<Rightarrow> Inl err
           | Inr rest \<Rightarrow>
               Inr (\<lparr> sc_place = c_place c, sc_enrichedData = c_enrichedData c, sc_score = s \<rparr>
                    # rest)))"

text \<open>
  \<open>scored.sort((a, b) => b.score - a.score)\<close>. \<open>Array.prototype.sort\<close> is stable; the
  model is the stable insertion sort on the key \<open>- score\<close>.
\<close>

definition sortByScore :: "scored list \<Rightarrow> scored list" where
  "sortByScore scoredList = sort_key (\<lambda>c. - sc_score c) scoredList"

text \<open>\<open>scored.slice(0, 5)\<close> after the sort.\<close>

definition rankTop5 :: "scored list \<Rightarrow> scored list" where
  "rankTop5 scoredList = take 5 (sortByScore scoredList)"

subsection \<open>Result records\<close>

definition categoriesOf :: "enriched option \<Rightarrow> categories option" where
  "categoriesOf enrichedData = (case enrichedData of None \<Rightarrow> None | Some d \<Rightarrow> e_categories d)"

definition weekdayTextOf :: "enriched option \<Rightarrow> string list option" where
  "weekdayTextOf enrichedData =
     (case enrichedData of
        None \<Rightarrow> None
      | Some d \<Rightarrow> (case e_openingHours d of None \<Rightarrow> None | Some h \<Rightarrow> weekdayText h))"

text \<open>One element of \<open>top5.map(({ place, enrichedData, score }, index) => ...)\<close>.\<close>

definition formatResult :: "env \<Rightarrow> string list \<Rightarrow> nat \<Rightarrow> scored \<Rightarrow> result" where
  "formatResult ev explanations index c =
     (let p = sc_place c; enrichedData = sc_enrichedData c
      in \<lparr> r_id = place_id p,
           r_placeId = (case truthyStr (placeId p) of
                          Some i \<Rightarrow> Some i
                        | None \<Rightarrow> (case enrichedData of
                                     None \<Rightarrow> None
                                   | Some d \<Rightarrow> truthyStr (e_placeId d))),
           r_name = (case enrichedData of
                       None \<Rightarrow> name p
                     | Some d \<Rightarrow> (case truthyStr (e_name d) of Some n \<Rightarrow> Some n | None \<Rightarrow> name p)),
           r_address = (case addressOf enrichedData of Some a \<Rightarrow> Some a | None \<Rightarrow> address p),
           r_rating = truthyNum (ratingOf enrichedData),
           r_userRatingCount =
             (case enrichedData of
                None \<Rightarrow> None
              | Some d \<Rightarrow> (case e_userRatingCount d of
                             None \<Rightarrow> None
                           | Some n \<Rightarrow> if n = 0 then None else Some n)),
           r_priceLevel =
             (case enrichedData of
                None \<Rightarrow> priceLevel p
              | Some d \<Rightarrow> (case e_priceLevel d of Val l \<Rightarrow> Some l | _ \<Rightarrow> priceLevel p)),
           r_primaryType =
             (case categoriesOf enrichedData of None \<Rightarrow> None | Some cs \<Rightarrow> truthyStr (primary cs)),
           r_primaryTypeDisplayName = truthyStr (primaryDisplayNameOf enrichedData),
           r_types = (case categoriesOf enrichedData of None \<Rightarrow> [] | Some cs \<Rightarrow> types cs),
           r_openNow = (case openNowOf enrichedData of Val b \<Rightarrow> Some b | _ \<Rightarrow> None),
           r_openingHoursText =
             (case weekdayTextOf enrichedData of
                None \<Rightarrow> None
              | Some w \<Rightarrow> Some (joinWith '', '' w)),
           r_reviewSummary =
             (case enrichedData of None \<Rightarrow> None | Some d \<Rightarrow> truthyStr (e_about d)),
           r_why = (if index < length explanations
                    then orStr (Some (explanations ! index)) (templateExplanation ev enrichedData)
                    else templateExplanation ev enrichedData),
           r_score = sc_score c,
           r_lat = truthyNum (lat p),
           r_lng = truthyNum (lng p) \<rparr>)"

text \<open>\<open>questions && questions.length > 0 ? questions[0] : null\<close>\<close>

definition firstQuestion :: "intent \<Rightarrow> string jsfield" where
  "firstQuestion interp = (case questions interp of [] \<Rightarrow> Null | q # _ \<Rightarrow> Val q)"

subsection \<open>The handler\<close>

text \<open>The informational branch of \<open>handleChatSaved\<close>.\<close>

definition informationalTurn :: "env \<Rightarrow> (string \<Rightarrow> slots option) \<Rightarrow> slots \<Rightarrow> call list \<Rightarrow> intent \<Rightarrow> outcome" where
  "informationalTurn ev sess sessionSlots made interp =
     (let reply = (\<lambda>txt. Json \<lparr> mode = ''recommendations'', resp_assistantMessage = txt,
                                updatedSlots = sessionSlots, results = [],
                                optionalQuestion = Null \<rparr>);
          notFound = reply (orStr (Some (assistantMessage interp))
            ''I couldn't find that place in your saved list. Which place are you asking about?'')
      in case findTargetPlace (getAllPlaces ev) (targetPlaceName interp) of
           Inl err \<Rightarrow> \<lparr> response = Status500 err, sessions = sess, calls = made \<rparr>
         | Inr None \<Rightarrow> \<lparr> response = notFound, sessions = sess, calls = made \<rparr>
         | Inr (Some targetPlace) \<Rightarrow>
             if hasPlaceId targetPlace then
               (let failed = reply (''I couldn't find detailed information for '' @
                        nameText targetPlace @
                        ''. Would you like to see it in a recommendation list?'');
                    made = made @ [CallPlaceDetails (placeId targetPlace)]
                in case fetchPlaceDetails ev (placeId targetPlace) of
                     Inl err \<Rightarrow> \<lparr> response = failed, sessions = sess, calls = made \<rparr>
                   | Inr enrichedData \<Rightarrow>
                       (case informationalAnswer ev targetPlace (questionType interp) enrichedData of
                          Inl err \<Rightarrow> \<lparr> response = failed, sessions = sess, calls = made \<rparr>
                        | Inr answer \<Rightarrow>
                            \<lparr> response = reply answer, sessions = sess, calls = made \<rparr>))
             else \<lparr> response = notFound, sessions = sess, calls = made \<rparr>)"

text \<open>The recommendation branch of \<open>handleChatSaved\<close>, from the update of the session on.\<close>

definition recommendationTurn ::
  "env \<Rightarrow> (string \<Rightarrow> slots option) \<Rightarrow> string \<Rightarrow> string option \<Rightarrow> (real \<times> real) option \<Rightarrow>
   call list \<Rightarrow> intent \<Rightarrow> outcome" where
  "recommendationTurn ev sess sid lname loc made interp =
     (let sessionSlots = i_slots interp;
          sess = sess(sid \<mapsto> sessionSlots);
          allPlaces = getAllPlaces ev;
          scoredCandidates = filterCandidates (getAllPlaces ev) allPlaces sessionSlots lname
      in if length scoredCandidates = 0 then
           \<lparr> response = Json \<lparr> mode = ''recommendations'',
               resp_assistantMessage =
                 ''I couldn't find any places matching your criteria. Try adjusting your search!'',
               updatedSlots = sessionSlots, results = [], optionalQuestion = Absent \<rparr>,
             sessions = sess, calls = made \<rparr>
         else
           (let made = made @ map (\<lambda>p. CallPlaceDetails (placeId p))
                                  (topCandidatesForEnrichment scoredCandidates)
            in case scoreAll sessionSlots loc (allCandidatesForRanking ev scoredCandidates) of
                 Inl err \<Rightarrow> \<lparr> response = Status500 err, sessions = sess, calls = made \<rparr>
               | Inr scoredList \<Rightarrow>
                   (let top5 = rankTop5 scoredList
                    in if length top5 = 0 then
                         \<lparr> response = Json \<lparr> mode = ''recommendations'',
                             resp_assistantMessage = orStr (Some (assistantMessage interp))
                               ''I couldn't find any places matching your criteria. Try adjusting your search!'',
                             updatedSlots = sessionSlots, results = [],
                             optionalQuestion = firstQuestion interp \<rparr>,
                           sessions = sess, calls = made \<rparr>
                       else
                         (let explanations = generateBatchExplanations ev top5 sessionSlots;
                              rs = map (\<lambda>(index, c). formatResult ev explanations index c)
                                       (enumerate 0 top5)
                          in \<lparr> response = Json \<lparr> mode = ''recommendations'',
                                  resp_assistantMessage = orStr (Some (assistantMessage interp))
                                    (''Here are '' @ numberToString ev (real (length rs)) @
                                     '' recommendations based on your saved places:''),
                                  updatedSlots = sessionSlots, results = rs,
                                  optionalQuestion = firstQuestion interp \<rparr>,
                                sessions = sess,
                                calls = made @ [CallExplanations top5 sessionSlots] \<rparr>))))"

text \<open>\<open>const { message, context = {} } = req.body\<close>\<close>

definition contextOf :: "request \<Rightarrow> chatContext" where
  "contextOf req =
     (case req_context req of
        None \<Rightarrow> \<lparr> sessionId = None, ctx_listName = None, userLocation = None, ctx_slots = None \<rparr>
      | Some c \<Rightarrow> c)"

text \<open>\<open>sessionId = `session_${Date.now()}`\<close> as the default.\<close>

definition sessionIdOf :: "env \<Rightarrow> request \<Rightarrow> string" where
  "sessionIdOf ev req =
     (case sessionId (contextOf req) of None \<Rightarrow> ''session_'' @ dateNow ev | Some s \<Rightarrow> s)"

text \<open>
  The slots of \<open>sessions.get(sessionId) || { slots: initialSlots }\<close>, with
  \<open>slots: initialSlots = {}\<close> as the default.
\<close>

definition sessionSlotsOf :: "env \<Rightarrow> (string \<Rightarrow> slots option) \<Rightarrow> request \<Rightarrow> slots" where
  "sessionSlotsOf ev sess req =
     (case sess (sessionIdOf ev req) of
        Some s \<Rightarrow> s
      | None \<Rightarrow> (case ctx_slots (contextOf req) of None \<Rightarrow> emptySlots | Some s \<Rightarrow> s))"

text \<open>
  \<open>handleChatSaved(req, res)\<close>: \<open>sess\<close> is the module's \<open>sessions\<close> map before the
  turn; the outcome holds the response sent, the map after the turn and the calls made.
\<close>

definition handleChatSaved :: "env \<Rightarrow> (string \<Rightarrow> slots option) \<Rightarrow> request \<Rightarrow> outcome" where
  "handleChatSaved ev sess req =
     (case truthyStr (req_message req) of
        None \<Rightarrow> \<lparr> response = Status400 ''Message is required'', sessions = sess, calls = [] \<rparr>
      | Some msg \<Rightarrow>
          (let ctx = contextOf req;
               sid = sessionIdOf ev req;
               sessionSlots = sessionSlotsOf ev sess req
           in if isGreeting msg \<and> length (slotKeys sessionSlots) = 0 then
                \<lparr> response = Json \<lparr> mode = ''recommendations'',
                    resp_assistantMessage =
                      ''Hi there! I can help you find places from your saved list. To get started, what kind of place are you looking for?'',
                    updatedSlots = sessionSlots, results = [], optionalQuestion = Null \<rparr>,
                  sessions = sess, calls = [] \<rparr>
              else
                (let interp = interpretMessageWithGemini ev msg sessionSlots;
                     made = [CallInterpreter msg sessionSlots]
                 in if intentType interp = ''informational''
                    then informationalTurn ev sess sessionSlots made interp
                    else recommendationTurn ev sess sid (ctx_listName ctx) (userLocation ctx)
                           made interp)))"

section \<open>Example data\<close>

definition examplePlace :: place where
  "examplePlace =
     \<lparr> place_id = ''p1'', name = Some ''Cafe Uno'', lat = Some 45, lng = Some 73,
       address = None, listName = None, tags = Some [''Cafe''], placeTags = None,
       placeNotes = None, placeType = None, vibe = Some ''Cozy'', priceLevel = None,
       placeId = None \<rparr>"

definition exampleLinked :: place where
  "exampleLinked = examplePlace\<lparr> place_id := ''p2'', name := Some ''Bistro Due'',
     placeId := Some ''g2'' \<rparr>"

definition exampleEnriched :: enriched where
  "exampleEnriched =
     \<lparr> e_placeId = Some ''g2'', e_name = None, e_address = None, e_rating = Some 5,
       e_userRatingCount = None, e_priceLevel = Val 1, e_categories = None, e_contact = None,
       e_openingHours = Some \<lparr> weekdayText = None, openNow = Val True \<rparr>, e_about = None \<rparr>"

definition exampleSlots :: slots where
  "exampleSlots =
     \<lparr> s_category = Val ''cafe'', s_cuisine = Val ''uno'', s_price = Val ''cheap'',
       s_vibe = Val ''cozy'', s_openNow = Val True, s_distanceKm = Val 2, s_otherKeys = [] \<rparr>"

definition exampleOther :: place where
  "exampleOther = examplePlace\<lparr> place_id := ''p3'', name := Some ''Diner Tre'',
     placeId := Some ''g9'' \<rparr>"

text \<open>
  No credential, a provider that rejects, a detail provider that knows the place \<open>g2\<close>
  only.
\<close>

definition exampleEnv :: env where
  "exampleEnv =
     \<lparr> OPENROUTER_API_KEY = None, GEMINI_API_KEY = None,
       complete = (\<lambda>p. FetchRejected), jsonParse = (\<lambda>s. None),
       fetchPlaceDetails = (\<lambda>i. if i = Some ''g2'' then Inr (Some exampleEnriched) else Inr None),
       getAllPlaces = [examplePlace, exampleLinked],
       numberToString = (\<lambda>r. ''5''), toLocaleString = (\<lambda>n. ''0''), dateNow = ''0'' \<rparr>"

text \<open>A credential, and a provider that answers in prose, which does not parse.\<close>

definition exampleEnvProse :: env where
  "exampleEnvProse =
     exampleEnv\<lparr> GEMINI_API_KEY := Some ''key'',
       complete := (\<lambda>p. Body (Some ''Sorry, I cannot help with that.'')) \<rparr>"

text \<open>A credential, and a provider whose answer parses to four explanations.\<close>

definition fourJson :: string where
  \<open>fourJson = ''Here you go: ["a", "b", "c", "d"]''\<close>

definition exampleEnvFour :: env where
  "exampleEnvFour =
     exampleEnv\<lparr> OPENROUTER_API_KEY := Some ''key'',
       complete := (\<lambda>p. Body (Some fourJson)),
       jsonParse := (\<lambda>s. if s = drop 13 fourJson then Some (JArray [''a'', ''b'', ''c'', ''d''])
                          else None) \<rparr>"

definition exampleScored :: scored where
  "exampleScored = \<lparr> sc_place = examplePlace, sc_enrichedData = None, sc_score = 0 \<rparr>"

definition exampleTop5 :: "scored list" where
  "exampleTop5 =
     [\<lparr> sc_place = exampleLinked, sc_enrichedData = Some exampleEnriched, sc_score = 10 \<rparr>,
      exampleScored, exampleScored, exampleScored, exampleScored]"

section \<open>Evaluation of the example data\<close>

lemmas example_defs =
  examplePlace_def exampleLinked_def exampleOther_def exampleEnriched_def exampleSlots_def exampleEnv_def
  exampleEnvProse_def fourJson_def exampleEnvFour_def exampleScored_def exampleTop5_def emptySlots_def

lemmas string_defs =
  toLowerCase_def lowerChar_def truthyStr_def truthyField_def truthyNum_def truthyKm_def
  orEmpty_def orStr_def lowerTruthy_def someIncludes_def

lemmas score_defs =
  scorePlace_def categoryScore_def categoryTags_def cuisineScore_def cuisineTags_def
  priceScore_def activePrice_def targetLevels_def openNowScore_def openNowOf_def
  ratingScore_def ratingOf_def distanceScore_def withinKm_def calculateDistance_def atan2_def
  vibeScore_def primaryDisplayNameOf_def

lemmas gate_defs = allCandidatesForRanking_def enrichedCandidates_def placesWithoutEnrichment_def
      topCandidatesForEnrichment_def enrichCandidate_def hasPlaceId_def

lemmas turn_defs = recommendationTurn_def filterCandidates_def categoryFilter_def cuisineFilter_def
  priceFilter_def rankTop5_def sortByScore_def generateBatchExplanations_def
  getOpenRouterApiKey_def fallbackExplanations_def templateExplanation_def formatResult_def
  fallbackInterpretation_def firstQuestion_def enumerate_eq_zip categoriesOf_def weekdayTextOf_def
  addressOf_def starEmoji_def Let_def

lemmas handler_defs = handleChatSaved_def contextOf_def sessionIdOf_def sessionSlotsOf_def
  isGreeting_def trim_def isSpace_def greetingPattern1_def greetingPattern2_def wordAt_def
  boundary_def slotKeys_def present_def interpretMessageWithGemini_def

section \<open>Candidate filter: properties\<close>

text \<open>
  Claim C7. With no slot set and no list name, the candidate filter returns the input
  list cut to its first 50 elements, in the same order.
\<close>

theorem filterCandidates_no_slots:
  "filterCandidates store places emptySlots None = take 50 places"
  by (simp add: filterCandidates_def emptySlots_def truthyStr_def categoryFilter_def
      cuisineFilter_def priceFilter_def activePrice_def truthyField_def)

text \<open>
  Claim C8. A place whose price level is unknown passes the price rule of the candidate
  filter, whatever the price slot asks for.
\<close>

theorem priceFilter_keeps_unknown:
  "priceLevel p = None \<Longrightarrow> p \<in> set candidates \<Longrightarrow> p \<in> set (priceFilter sl candidates)"
  by (simp add: priceFilter_def split: option.splits)

theorem priceFilter_keeps_unknown_witness:
  "priceLevel examplePlace = None \<and> examplePlace \<in> set [exampleLinked, examplePlace]
   \<and> examplePlace \<in> set (priceFilter exampleSlots [exampleLinked, examplePlace])"
  using priceFilter_keeps_unknown [of examplePlace "[exampleLinked, examplePlace]" exampleSlots]
  by (simp add: examplePlace_def)

section \<open>Scorer: properties\<close>

lemma categoryScore_bounds: "0 \<le> categoryScore p sl e \<and> categoryScore p sl e \<le> 20"
  by (simp add: categoryScore_def split: option.splits)

lemma cuisineScore_bounds: "0 \<le> cuisineScore p sl e \<and> cuisineScore p sl e \<le> 15"
  by (simp add: cuisineScore_def split: option.splits)

lemma priceScore_bounds: "priceScore sl e = Inr v \<Longrightarrow> 0 \<le> v \<and> v \<le> 10"
  by (auto simp add: priceScore_def split: option.splits jsfield.splits if_splits)

lemma openNowScore_bounds: "0 \<le> openNowScore sl e \<and> openNowScore sl e \<le> 15"
  by (simp add: openNowScore_def)

lemma ratingScore_le: "ratingScore e \<le> 10"
  by (simp add: ratingScore_def split: option.splits)

lemma ratingScore_nonneg: "(\<And>r. ratingOf e = Some r \<Longrightarrow> 0 \<le> r) \<Longrightarrow> 0 \<le> ratingScore e"
  by (auto simp add: ratingScore_def truthyNum_def split: option.splits if_splits)

lemma distanceScore_bounds: "0 \<le> distanceScore p sl loc \<and> distanceScore p sl loc \<le> 10"
  by (simp add: distanceScore_def Let_def split: option.splits prod.splits)

lemma vibeScore_bounds: "0 \<le> vibeScore p sl \<and> vibeScore p sl \<le> 10"
  by (simp add: vibeScore_def split: option.splits)

lemma scorePlace_Inr:
  "scorePlace p sl e loc = Inr v \<longleftrightarrow>
     (\<exists>pts. priceScore sl e = Inr pts \<and>
        v = categoryScore p sl e + cuisineScore p sl e + pts + openNowScore sl e
            + ratingScore e + distanceScore p sl loc + vibeScore p sl)"
  by (auto simp add: scorePlace_def Let_def split: sum.splits)

text \<open>The scorer raises exactly when a price band is asked for and there is no enriched data.\<close>

lemma scorePlace_raises_iff:
  "scorePlace p sl e loc = Inl TypeError \<longleftrightarrow> activePrice sl \<noteq> None \<and> e = None"
  by (auto simp add: scorePlace_def priceScore_def Let_def
      split: sum.splits option.splits jsfield.splits if_splits)

text \<open>Where the scorer returns and the rating is not negative, the score is not negative.\<close>

lemma scorePlace_nonneg:
  assumes "scorePlace p sl e loc = Inr v" and "\<And>r. ratingOf e = Some r \<Longrightarrow> 0 \<le> r"
  shows "0 \<le> v"
proof -
  from assms(1) obtain pts where pts: "priceScore sl e = Inr pts"
    and v: "v = categoryScore p sl e + cuisineScore p sl e + pts + openNowScore sl e
              + ratingScore e + distanceScore p sl loc + vibeScore p sl"
    by (auto simp add: scorePlace_Inr)
  have "0 \<le> ratingScore e"
    using assms(2) by (rule ratingScore_nonneg)
  then show ?thesis
    using categoryScore_bounds [of p sl e] cuisineScore_bounds [of p sl e]
      priceScore_bounds [OF pts] openNowScore_bounds [of sl e]
      distanceScore_bounds [of p sl loc] vibeScore_bounds [of p sl]
    unfolding v by linarith
qed

text \<open>
  Claim C1. The claim says that the scorer returns a number, without raising, also
  when \<open>enrichedData\<close> is null and a price slot other than \<open>any\<close> is set. On that input
  the source raises a TypeError: the guard \<open>enrichedData?.priceLevel !== null\<close> holds
  for \<open>undefined\<close>, and the body reads \<open>enrichedData.priceLevel\<close>. A chat turn
  reaches this input: a saved place without \<open>placeId\<close> is scored with
  \<open>enrichedData: null\<close>, and with the price slot \<open>cheap\<close> the turn ends in the
  handler's \<open>catch\<close> with status 500.
\<close>

theorem scorePlace_null_enriched_price_raises:
  "scorePlace examplePlace (emptySlots\<lparr> s_price := Val ''cheap'' \<rparr>) None None = Inl TypeError
   \<and> response (handleChatSaved exampleEnv Map.empty
        \<lparr> req_message = Some ''find food'',
          req_context = Some \<lparr> sessionId = Some ''s1'', ctx_listName = None, userLocation = None,
                               ctx_slots = Some (emptySlots\<lparr> s_price := Val ''cheap'' \<rparr>) \<rparr> \<rparr>)
     = Status500 TypeError"
  by (simp add: handler_defs turn_defs gate_defs score_defs string_defs example_defs)

text \<open>
  Claim C10. Whenever the scorer returns a value, the value is at most 90, the sum of
  the largest amounts of the seven rules.
\<close>

theorem scorePlace_le_90:
  assumes "scorePlace p sl e loc = Inr v"
  shows "v \<le> 90"
proof -
  from assms obtain pts where pts: "priceScore sl e = Inr pts"
    and v: "v = categoryScore p sl e + cuisineScore p sl e + pts + openNowScore sl e
              + ratingScore e + distanceScore p sl loc + vibeScore p sl"
    by (auto simp add: scorePlace_Inr)
  show ?thesis
    using categoryScore_bounds [of p sl e] cuisineScore_bounds [of p sl e]
      priceScore_bounds [OF pts] openNowScore_bounds [of sl e] ratingScore_le [of e]
      distanceScore_bounds [of p sl loc] vibeScore_bounds [of p sl]
    unfolding v by linarith
qed

theorem scorePlace_le_90_witness:
  "scorePlace examplePlace exampleSlots (Some exampleEnriched) (Some (45, 73)) = Inr 90
   \<and> (90 :: real) \<le> 90"
proof -
  have h: "scorePlace examplePlace exampleSlots (Some exampleEnriched) (Some (45, 73)) = Inr 90"
    by (simp add: score_defs string_defs example_defs)
  from scorePlace_le_90 [OF h] h show ?thesis by simp
qed

subsection \<open>Adding a tag that matches the category\<close>

lemma someIncludes_iff: "someIncludes xs n \<longleftrightarrow> (\<exists>x \<in> set xs. includesStr x n)"
  by (simp add: someIncludes_def list_ex_iff)

lemma set_filterBoolean: "set (filterBoolean xs) = {s. Some s \<in> set xs \<and> s \<noteq> []}"
  by (induction xs rule: filterBoolean.induct) auto

lemma set_lowerTruthy: "set (lowerTruthy xs) = toLowerCase ` {s. Some s \<in> set xs \<and> s \<noteq> []}"
  by (simp add: lowerTruthy_def set_filterBoolean)

lemma toLowerCase_eq_Nil: "toLowerCase s = [] \<longleftrightarrow> s = []"
  by (simp add: toLowerCase_def)

lemma truthyField_nonempty: "truthyField v = Some c \<Longrightarrow> c \<noteq> []"
  by (auto simp add: truthyField_def split: jsfield.splits if_splits)

lemma tags_add_nonempty:
  assumes "set (orEmpty ts) \<union> set (orEmpty pts)
           = insert t (set (orEmpty (tags p)) \<union> set (orEmpty (placeTags p)))"
  shows "{s. (s \<in> set (orEmpty ts) \<or> s \<in> set (orEmpty pts)) \<and> s \<noteq> []}
         = (if t = [] then {} else {t})
           \<union> {s. (s \<in> set (orEmpty (tags p)) \<or> s \<in> set (orEmpty (placeTags p))) \<and> s \<noteq> []}"
  using assms by auto

lemma categoryTags_add_tag:
  assumes "set (orEmpty ts) \<union> set (orEmpty pts)
           = insert t (set (orEmpty (tags p)) \<union> set (orEmpty (placeTags p)))"
      and "t \<noteq> []"
  shows "set (categoryTags (p\<lparr>tags := ts, placeTags := pts\<rparr>) e)
         = insert (toLowerCase t) (set (categoryTags p e))"
  using tags_add_nonempty [OF assms(1)] assms(2)
  by (auto simp add: categoryTags_def set_lowerTruthy)

lemma cuisineTags_add_tag:
  assumes "set (orEmpty ts) \<union> set (orEmpty pts)
           = insert t (set (orEmpty (tags p)) \<union> set (orEmpty (placeTags p)))"
      and "t \<noteq> []"
  shows "set (cuisineTags (p\<lparr>tags := ts, placeTags := pts\<rparr>) e)
         = insert (toLowerCase t) (set (cuisineTags p e))"
  using tags_add_nonempty [OF assms(1)] assms(2)
  by (auto simp add: cuisineTags_def set_lowerTruthy)

lemma foldl_jsAdd_mono:
  assumes mono: "\<forall>a b c d. a \<le> b \<and> c \<le> d \<longrightarrow> jsAdd a c \<le> jsAdd b d"
  shows "list_all2 (\<le>) xs ys \<Longrightarrow> x \<le> y \<Longrightarrow> foldl jsAdd (x :: real) xs \<le> foldl jsAdd y (ys :: real list)"
proof (induction xs ys arbitrary: x y rule: list_all2_induct)
  case Nil
  then show ?case by simp
next
  case (Cons a xs b ys)
  from mono Cons.hyps(1) Cons.prems have "jsAdd x a \<le> jsAdd y b" by blast
  then show ?case using Cons.IH by simp
qed

text \<open>
  Claim C3, as amended. Let the category slot be set, let \<open>t\<close> be a tag that matches
  it, and let the new place differ from the old one in \<open>tags\<close> and \<open>placeTags\<close> only,
  which together hold the old tags and \<open>t\<close> (so \<open>t\<close> was added to either list, at any
  position). If the scorer returns \<open>s\<close> for the old place, it returns for the new one a
  score that is not smaller. The amount of the category rule is 20 afterwards, 20 before
  when the old place had a category match and 0 when it had none. The amount of the
  cuisine rule grows by 15 when a cuisine slot is set, the old place had no cuisine match
  and \<open>t\<close> matches the cuisine too, and stays otherwise; the amounts of the other rules
  stay. Nothing is said of the difference of the two totals: the code adds the amounts
  as doubles, and the last conjunct gives the order of the totals for every addition
  that is monotone, as the rounded addition is.
\<close>

theorem scorePlace_add_category_tag:
  assumes cat: "truthyField (s_category sl) = Some c"
      and hit: "includesStr (toLowerCase t) (toLowerCase c)"
      and tg: "set (orEmpty ts) \<union> set (orEmpty pts)
               = insert t (set (orEmpty (tags p)) \<union> set (orEmpty (placeTags p)))"
      and sc: "scorePlace p sl e loc = Inr s"
  shows "\<exists>s' pr. scorePlace (p\<lparr>tags := ts, placeTags := pts\<rparr>) sl e loc = Inr s' \<and> s \<le> s'
           \<and> categoryScore p sl e
               = (if someIncludes (categoryTags p e) (toLowerCase c) then 20 else 0)
           \<and> categoryScore (p\<lparr>tags := ts, placeTags := pts\<rparr>) sl e = 20
           \<and> cuisineScore (p\<lparr>tags := ts, placeTags := pts\<rparr>) sl e
               = cuisineScore p sl e
                 + (case truthyField (s_cuisine sl) of
                      None \<Rightarrow> 0
                    | Some cu \<Rightarrow>
                        if \<not> someIncludes (cuisineTags p e) (toLowerCase cu)
                           \<and> includesStr (toLowerCase t) (toLowerCase cu) then 15 else 0)
           \<and> distanceScore (p\<lparr>tags := ts, placeTags := pts\<rparr>) sl loc = distanceScore p sl loc
           \<and> vibeScore (p\<lparr>tags := ts, placeTags := pts\<rparr>) sl = vibeScore p sl
           \<and> priceScore sl e = Inr pr
           \<and> (\<forall>jsAdd :: real \<Rightarrow> real \<Rightarrow> real. (\<forall>a b c d. a \<le> b \<and> c \<le> d \<longrightarrow> jsAdd a c \<le> jsAdd b d) \<longrightarrow>
                 foldl jsAdd 0 [categoryScore p sl e, cuisineScore p sl e, pr, openNowScore sl e,
                               ratingScore e, distanceScore p sl loc, vibeScore p sl]
                 \<le> foldl jsAdd 0 [categoryScore (p\<lparr>tags := ts, placeTags := pts\<rparr>) sl e,
                                 cuisineScore (p\<lparr>tags := ts, placeTags := pts\<rparr>) sl e, pr,
                                 openNowScore sl e, ratingScore e,
                                 distanceScore (p\<lparr>tags := ts, placeTags := pts\<rparr>) sl loc,
                                 vibeScore (p\<lparr>tags := ts, placeTags := pts\<rparr>) sl])"
proof -
  let ?p' = "p\<lparr>tags := ts, placeTags := pts\<rparr>"
  let ?extra = "case truthyField (s_cuisine sl) of
         None \<Rightarrow> 0
       | Some cu \<Rightarrow> if \<not> someIncludes (cuisineTags p e) (toLowerCase cu)
                        \<and> includesStr (toLowerCase t) (toLowerCase cu) then 15 else (0 :: real)"
  have cne: "toLowerCase c \<noteq> []"
    using truthyField_nonempty [OF cat] by (simp add: toLowerCase_eq_Nil)
  have tne: "t \<noteq> []"
  proof
    assume "t = []"
    with hit cne show False by (simp add: toLowerCase_def)
  qed
  have c0: "categoryScore p sl e
            = (if someIncludes (categoryTags p e) (toLowerCase c) then 20 else 0)"
    by (simp add: categoryScore_def cat)
  have c1: "categoryScore ?p' sl e = 20"
    using hit by (simp add: categoryScore_def cat someIncludes_iff categoryTags_add_tag [OF tg tne])
  have c2: "cuisineScore ?p' sl e = cuisineScore p sl e + ?extra"
    by (simp add: cuisineScore_def someIncludes_iff cuisineTags_add_tag [OF tg tne]
        split: option.splits)
  have c3: "distanceScore ?p' sl loc = distanceScore p sl loc"
    by (simp add: distanceScore_def cong: option.case_cong)
  have c4: "vibeScore ?p' sl = vibeScore p sl"
    by (simp add: vibeScore_def cong: option.case_cong)
  have le1: "categoryScore p sl e \<le> categoryScore ?p' sl e"
    unfolding c0 c1 by simp
  have le2: "cuisineScore p sl e \<le> cuisineScore ?p' sl e"
    unfolding c2 by (simp split: option.splits)
  from sc obtain pr where pr: "priceScore sl e = Inr pr"
    and s: "s = categoryScore p sl e + cuisineScore p sl e + pr + openNowScore sl e
              + ratingScore e + distanceScore p sl loc + vibeScore p sl"
    by (auto simp add: scorePlace_Inr)
  let ?s' = "categoryScore ?p' sl e + cuisineScore ?p' sl e + pr + openNowScore sl e
           + ratingScore e + distanceScore ?p' sl loc + vibeScore ?p' sl"
  have s': "scorePlace ?p' sl e loc = Inr ?s'"
    by (simp add: scorePlace_Inr pr)
  have le: "s \<le> ?s'"
    unfolding s c3 c4 using le1 le2 by linarith
  have fold: "foldl jsAdd 0 [categoryScore p sl e, cuisineScore p sl e, pr, openNowScore sl e,
                     ratingScore e, distanceScore p sl loc, vibeScore p sl]
              \<le> foldl jsAdd 0 [categoryScore ?p' sl e, cuisineScore ?p' sl e, pr,
                     openNowScore sl e, ratingScore e, distanceScore ?p' sl loc, vibeScore ?p' sl]"
    if mono: "\<forall>a b c d. a \<le> b \<and> c \<le> d \<longrightarrow> jsAdd a c \<le> jsAdd b d" for jsAdd :: "real \<Rightarrow> real \<Rightarrow> real"
    by (rule foldl_jsAdd_mono [OF mono]) (simp_all add: le1 le2 c3 c4)
  from s' le c0 c1 c2 c3 c4 pr fold show ?thesis
    by blast
qed


theorem scorePlace_add_category_tag_witness:
  "truthyField (s_category (emptySlots\<lparr> s_category := Val ''bar'' \<rparr>)) = Some ''bar''
   \<and> includesStr (toLowerCase ''Wine Bar'') (toLowerCase ''bar'')
   \<and> set (orEmpty (Some [''Cafe'', ''Wine Bar''])) \<union> set (orEmpty None)
       = insert ''Wine Bar'' (set (orEmpty (tags examplePlace)) \<union> set (orEmpty (placeTags examplePlace)))
   \<and> scorePlace examplePlace (emptySlots\<lparr> s_category := Val ''bar'' \<rparr>) None None = Inr 0
   \<and> scorePlace (examplePlace\<lparr> tags := Some [''Cafe'', ''Wine Bar''], placeTags := None \<rparr>)
        (emptySlots\<lparr> s_category := Val ''bar'' \<rparr>) None None = Inr 20
   \<and> categoryScore examplePlace (emptySlots\<lparr> s_category := Val ''bar'' \<rparr>) None = 0
   \<and> categoryScore (examplePlace\<lparr> tags := Some [''Cafe'', ''Wine Bar''], placeTags := None \<rparr>)
        (emptySlots\<lparr> s_category := Val ''bar'' \<rparr>) None = 20
   \<and> cuisineScore (examplePlace\<lparr> tags := Some [''Cafe'', ''Wine Bar''], placeTags := None \<rparr>)
        (emptySlots\<lparr> s_category := Val ''bar'' \<rparr>) None
       = cuisineScore examplePlace (emptySlots\<lparr> s_category := Val ''bar'' \<rparr>) None
   \<and> foldl (+) (0 :: real) [0, 0, 0, 0, 0, 0, 0] \<le> foldl (+) 0 [20, 0, 0, 0, 0, 0, 0]"
proof -
  let ?sl = "emptySlots\<lparr> s_category := Val ''bar'' \<rparr>"
  let ?p' = "examplePlace\<lparr> tags := Some [''Cafe'', ''Wine Bar''], placeTags := None \<rparr>"
  have h1: "truthyField (s_category ?sl) = Some ''bar''"
    by (simp add: truthyField_def)
  have h2: "includesStr (toLowerCase ''Wine Bar'') (toLowerCase ''bar'')"
    by (simp add: toLowerCase_def lowerChar_def)
  have h3: "set (orEmpty (Some [''Cafe'', ''Wine Bar''])) \<union> set (orEmpty None)
       = insert ''Wine Bar'' (set (orEmpty (tags examplePlace)) \<union> set (orEmpty (placeTags examplePlace)))"
    by (auto simp add: orEmpty_def examplePlace_def)
  have h4: "scorePlace examplePlace ?sl None None = Inr 0"
    by (simp add: score_defs string_defs example_defs)
  have h5: "scorePlace ?p' ?sl None None = Inr 20"
    by (simp add: score_defs string_defs example_defs)
  have h6: "\<not> someIncludes (categoryTags examplePlace None) (toLowerCase ''bar'')"
    by (simp add: score_defs string_defs example_defs)
  have h7: "truthyField (s_cuisine ?sl) = None"
    by (simp add: truthyField_def emptySlots_def)
  have h8: "priceScore ?sl None = Inr 0"
    by (simp add: score_defs string_defs example_defs)
  have h9: "cuisineScore examplePlace ?sl None = 0 \<and> openNowScore ?sl None = 0
            \<and> ratingScore None = 0 \<and> distanceScore examplePlace ?sl None = 0
            \<and> vibeScore examplePlace ?sl = 0"
    by (simp add: score_defs string_defs example_defs)
  have mono: "\<forall>a b c d :: real. a \<le> b \<and> c \<le> d \<longrightarrow> a + c \<le> b + d"
    by simp
  from scorePlace_add_category_tag [OF h1 h2 h3 h4] obtain s' pr where
      r1: "categoryScore examplePlace ?sl None
           = (if someIncludes (categoryTags examplePlace None) (toLowerCase ''bar'') then 20 else 0)"
    and r2: "categoryScore ?p' ?sl None = 20"
    and r3: "cuisineScore ?p' ?sl None = cuisineScore examplePlace ?sl None
               + (case truthyField (s_cuisine ?sl) of
                    None \<Rightarrow> 0
                  | Some cu \<Rightarrow>
                      if \<not> someIncludes (cuisineTags examplePlace None) (toLowerCase cu)
                         \<and> includesStr (toLowerCase ''Wine Bar'') (toLowerCase cu) then 15 else 0)"
    and r4: "distanceScore ?p' ?sl None = distanceScore examplePlace ?sl None"
    and r5: "vibeScore ?p' ?sl = vibeScore examplePlace ?sl"
    and r6: "priceScore ?sl None = Inr pr"
    and r7: "\<forall>jsAdd :: real \<Rightarrow> real \<Rightarrow> real.
               (\<forall>a b c d. a \<le> b \<and> c \<le> d \<longrightarrow> jsAdd a c \<le> jsAdd b d) \<longrightarrow>
               foldl jsAdd 0 [categoryScore examplePlace ?sl None, cuisineScore examplePlace ?sl None,
                              pr, openNowScore ?sl None, ratingScore None,
                              distanceScore examplePlace ?sl None, vibeScore examplePlace ?sl]
               \<le> foldl jsAdd 0 [categoryScore ?p' ?sl None, cuisineScore ?p' ?sl None, pr,
                               openNowScore ?sl None, ratingScore None,
                               distanceScore ?p' ?sl None, vibeScore ?p' ?sl]"
    by blast
  have a1: "categoryScore examplePlace ?sl None = 0"
    using r1 h6 by simp
  have a3: "cuisineScore ?p' ?sl None = cuisineScore examplePlace ?sl None"
    using r3 h7 by simp
  have pr0: "pr = 0"
    using r6 h8 by simp
  from r7 mono
  have "foldl (+) 0 [categoryScore examplePlace ?sl None, cuisineScore examplePlace ?sl None,
                     pr, openNowScore ?sl None, ratingScore None,
                     distanceScore examplePlace ?sl None, vibeScore examplePlace ?sl]
        \<le> foldl (+) 0 [categoryScore ?p' ?sl None, cuisineScore ?p' ?sl None, pr,
                        openNowScore ?sl None, ratingScore None,
                        distanceScore ?p' ?sl None, vibeScore ?p' ?sl]"
    by blast
  then have a8: "foldl (+) (0 :: real) [0, 0, 0, 0, 0, 0, 0] \<le> foldl (+) 0 [20, 0, 0, 0, 0, 0, 0]"
    unfolding a1 r2 a3 r4 r5 pr0 using h9 by simp
  from h1 h2 h3 h4 h5 a1 r2 a3 a8 show ?thesis
    by blast
qed

text \<open>
  Claim C3, as stated, fails in two ways. A place that already matches the category
  keeps its score when one more matching tag is added (20 before, 20 after). And a tag
  that matches the category and the cuisine slot raises the score by 35.
\<close>

theorem scorePlace_add_category_tag_counterexample:
  "scorePlace examplePlace (emptySlots\<lparr> s_category := Val ''cafe'' \<rparr>) None None = Inr 20
   \<and> includesStr (toLowerCase ''Cafe Bar'') (toLowerCase ''cafe'')
   \<and> scorePlace (examplePlace\<lparr> tags := Some [''Cafe'', ''Cafe Bar''] \<rparr>)
        (emptySlots\<lparr> s_category := Val ''cafe'' \<rparr>) None None = Inr 20
   \<and> scorePlace examplePlace
        (emptySlots\<lparr> s_category := Val ''thai'', s_cuisine := Val ''thai'' \<rparr>) None None = Inr 0
   \<and> includesStr (toLowerCase ''Thai'') (toLowerCase ''thai'')
   \<and> scorePlace (examplePlace\<lparr> tags := Some [''Cafe'', ''Thai''] \<rparr>)
        (emptySlots\<lparr> s_category := Val ''thai'', s_cuisine := Val ''thai'' \<rparr>) None None = Inr 35"
  by (simp add: score_defs string_defs example_defs)

section \<open>Enrichment gate: properties\<close>

lemma c_place_enrichCandidate: "c_place (enrichCandidate ev p) = p"
  by (simp add: enrichCandidate_def)

lemma pool_places:
  "map c_place (allCandidatesForRanking ev cands)
   = take 20 (filter hasPlaceId cands) @ take 10 (filter (\<lambda>p. \<not> hasPlaceId p) cands)"
  by (simp add: allCandidatesForRanking_def enrichedCandidates_def placesWithoutEnrichment_def
      topCandidatesForEnrichment_def comp_def c_place_enrichCandidate)

lemma take_filter_holds: "x \<in> set (take n (filter P xs)) \<Longrightarrow> P x"
  using set_take_subset [of n "filter P xs"] by auto

lemma filter_take_filter_same: "filter P (take n (filter P xs)) = take n (filter P xs)"
  by (rule filter_True) (auto dest: take_filter_holds)

lemma filter_take_filter_other:
  "(\<And>x. P x \<Longrightarrow> \<not> Q x) \<Longrightarrow> filter Q (take n (filter P xs)) = []"
  by (auto simp add: filter_empty_conv dest: take_filter_holds)

lemma pool_with_id:
  "map c_place (filter (\<lambda>c. hasPlaceId (c_place c)) (allCandidatesForRanking ev cands))
   = take 20 (filter hasPlaceId cands)"
proof -
  have "map c_place (filter (\<lambda>c. hasPlaceId (c_place c)) (allCandidatesForRanking ev cands))
        = filter hasPlaceId (map c_place (allCandidatesForRanking ev cands))"
    by (simp add: filter_map comp_def)
  also have "\<dots> = take 20 (filter hasPlaceId cands)"
    by (simp add: pool_places filter_take_filter_same filter_take_filter_other)
  finally show ?thesis .
qed

lemma pool_without_id:
  "map c_place (filter (\<lambda>c. \<not> hasPlaceId (c_place c)) (allCandidatesForRanking ev cands))
   = take 10 (filter (\<lambda>p. \<not> hasPlaceId p) cands)"
proof -
  have "map c_place (filter (\<lambda>c. \<not> hasPlaceId (c_place c)) (allCandidatesForRanking ev cands))
        = filter (\<lambda>p. \<not> hasPlaceId p) (map c_place (allCandidatesForRanking ev cands))"
    by (simp add: filter_map comp_def)
  also have "\<dots> = take 10 (filter (\<lambda>p. \<not> hasPlaceId p) cands)"
    by (simp add: pool_places filter_take_filter_same filter_take_filter_other)
  finally show ?thesis .
qed

lemma pool_without_id_null:
  assumes "c \<in> set (allCandidatesForRanking ev cands)" and "\<not> hasPlaceId (c_place c)"
  shows "c_enrichedData c = None"
proof -
  from assms(1) consider
      (a) "c \<in> set (enrichedCandidates ev cands)"
    | (b) "c \<in> set (placesWithoutEnrichment cands)"
    by (auto simp add: allCandidatesForRanking_def)
  then show ?thesis
  proof cases
    case a
    then obtain p where "p \<in> set (take 20 (filter hasPlaceId cands))" and "c = enrichCandidate ev p"
      by (auto simp add: enrichedCandidates_def topCandidatesForEnrichment_def)
    then have "hasPlaceId (c_place c)"
      by (auto simp add: c_place_enrichCandidate dest: take_filter_holds)
    with assms(2) show ?thesis by simp
  next
    case b
    then show ?thesis by (auto simp add: placesWithoutEnrichment_def)
  qed
qed

text \<open>
  Claim C6. Whatever the filtered list, the pool built for the scorer holds at most 20
  candidates with an external place identifier and at most 10 without one, so at most 30
  in all, and every candidate without an identifier carries \<open>enrichedData = null\<close>.
\<close>

theorem enrichment_gate_bounds:
  "length (filter (\<lambda>c. hasPlaceId (c_place c)) (allCandidatesForRanking ev cands)) \<le> 20
   \<and> length (filter (\<lambda>c. \<not> hasPlaceId (c_place c)) (allCandidatesForRanking ev cands)) \<le> 10
   \<and> length (allCandidatesForRanking ev cands) \<le> 30
   \<and> (\<forall>c \<in> set (allCandidatesForRanking ev cands).
         \<not> hasPlaceId (c_place c) \<longrightarrow> c_enrichedData c = None)"
proof -
  have a: "length (filter (\<lambda>c. hasPlaceId (c_place c)) (allCandidatesForRanking ev cands)) \<le> 20"
    using arg_cong [OF pool_with_id [of ev cands], of length] by simp
  have b: "length (filter (\<lambda>c. \<not> hasPlaceId (c_place c)) (allCandidatesForRanking ev cands)) \<le> 10"
    using arg_cong [OF pool_without_id [of ev cands], of length] by simp
  have c: "length (allCandidatesForRanking ev cands) \<le> 30"
    using arg_cong [OF pool_places [of ev cands], of length] by simp
  from a b c pool_without_id_null show ?thesis by blast
qed

theorem enrichment_gate_bounds_witness:
  "allCandidatesForRanking exampleEnv [examplePlace, exampleLinked]
     = [\<lparr> c_place = exampleLinked, c_enrichedData = Some exampleEnriched \<rparr>,
        \<lparr> c_place = examplePlace, c_enrichedData = None \<rparr>]
   \<and> \<not> hasPlaceId (c_place (allCandidatesForRanking exampleEnv [examplePlace, exampleLinked] ! 1))
   \<and> c_enrichedData (allCandidatesForRanking exampleEnv [examplePlace, exampleLinked] ! 1) = None
   \<and> length (filter (\<lambda>c. hasPlaceId (c_place c))
        (allCandidatesForRanking exampleEnv [examplePlace, exampleLinked])) \<le> 20
   \<and> length (filter (\<lambda>c. \<not> hasPlaceId (c_place c))
        (allCandidatesForRanking exampleEnv [examplePlace, exampleLinked])) \<le> 10
   \<and> length (allCandidatesForRanking exampleEnv [examplePlace, exampleLinked]) \<le> 30"
proof -
  let ?pool = "allCandidatesForRanking exampleEnv [examplePlace, exampleLinked]"
  have pool: "?pool
     = [\<lparr> c_place = exampleLinked, c_enrichedData = Some exampleEnriched \<rparr>,
        \<lparr> c_place = examplePlace, c_enrichedData = None \<rparr>]"
    by (simp add: gate_defs truthyStr_def examplePlace_def exampleLinked_def exampleEnv_def)
  have mem: "?pool ! 1 \<in> set ?pool"
    unfolding pool by simp
  have noid: "\<not> hasPlaceId (c_place (?pool ! 1))"
    unfolding pool by (simp add: hasPlaceId_def truthyStr_def examplePlace_def)
  from enrichment_gate_bounds [of exampleEnv "[examplePlace, exampleLinked]"] mem noid
  have "c_enrichedData (?pool ! 1) = None"
    by blast
  with enrichment_gate_bounds [of exampleEnv "[examplePlace, exampleLinked]"] pool noid
  show ?thesis by blast
qed

section \<open>Ranking: properties\<close>

lemma scoreAll_places:
  "scoreAll sl loc pool = Inr scoredList \<Longrightarrow> map sc_place scoredList = map c_place pool"
  by (induction pool arbitrary: scoredList) (auto split: sum.splits)

lemma scoreAll_scores:
  "scoreAll sl loc pool = Inr scoredList \<Longrightarrow>
   map (\<lambda>c. Inr (sc_score c)) scoredList
   = map (\<lambda>c. scorePlace (c_place c) sl (c_enrichedData c) loc) pool"
  by (induction pool arbitrary: scoredList) (auto split: sum.splits)

lemma sortByScore_descending:
  "sorted_wrt (\<lambda>a b. sc_score b \<le> sc_score a) (sortByScore scoredList)"
proof -
  have "sorted (map (\<lambda>c. - sc_score c) (sortByScore scoredList))"
    unfolding sortByScore_def by (rule sorted_sort_key)
  then show ?thesis
    by (simp add: sorted_map sorted_wrt_iff_nth_less)
qed

lemma sortByScore_stable:
  "filter (\<lambda>c. sc_score c = k) (sortByScore scoredList) = filter (\<lambda>c. sc_score c = k) scoredList"
proof -
  have "filter (\<lambda>c. - sc_score c = - k) (sort_key (\<lambda>c. - sc_score c) scoredList)
        = filter (\<lambda>c. - sc_score c = - k) scoredList"
    by (rule sort_key_stable)
  then show ?thesis by (simp add: sortByScore_def)
qed

lemma r_id_formatResult: "r_id (formatResult ev ex i c) = place_id (sc_place c)"
  by (simp add: formatResult_def Let_def)

lemma r_score_formatResult: "r_score (formatResult ev ex i c) = sc_score c"
  by (simp add: formatResult_def Let_def)

lemma map_r_id:
  "map (r_id \<circ> (\<lambda>(i, c). formatResult ev ex i c)) (enumerate n xs) = map (place_id \<circ> sc_place) xs"
  by (induction xs arbitrary: n) (simp_all add: r_id_formatResult)

lemma map_r_score:
  "map (r_score \<circ> (\<lambda>(i, c). formatResult ev ex i c)) (enumerate n xs) = map sc_score xs"
  by (induction xs arbitrary: n) (simp_all add: r_score_formatResult)

lemma recommendationTurn_results:
  assumes ne: "filterCandidates (getAllPlaces ev) (getAllPlaces ev) (i_slots interp) lname \<noteq> []"
      and sc: "scoreAll (i_slots interp) loc
                 (allCandidatesForRanking ev
                    (filterCandidates (getAllPlaces ev) (getAllPlaces ev) (i_slots interp) lname))
               = Inr scoredList"
  shows "\<exists>r. response (recommendationTurn ev sess sid lname loc made interp) = Json r
            \<and> map r_id (results r) = map (place_id \<circ> sc_place) (rankTop5 scoredList)
            \<and> map r_score (results r) = map sc_score (rankTop5 scoredList)"
  using ne sc
  by (simp add: recommendationTurn_def Let_def map_r_id map_r_score)


text \<open>
  Claim C2, as amended. In a recommendation turn whose filter output is not empty and
  whose scoring does not raise, the result list is the first 5 of the scored pool sorted
  by descending score; the scores are the scorer's; ties keep the order of the pool, and
  the pool lists the first 20 candidates that have an external place identifier before
  the first 10 that have none, each group in the filter's order.
\<close>

theorem ranking_top5:
  assumes cands: "cands = filterCandidates (getAllPlaces ev) (getAllPlaces ev) (i_slots interp) lname"
      and ne: "cands \<noteq> []"
      and sc: "scoreAll (i_slots interp) loc (allCandidatesForRanking ev cands) = Inr scoredList"
  shows "(\<exists>r. response (recommendationTurn ev sess sid lname loc made interp) = Json r
            \<and> map r_id (results r) = map (place_id \<circ> sc_place) (take 5 (sortByScore scoredList))
            \<and> map r_score (results r) = map sc_score (take 5 (sortByScore scoredList)))
         \<and> sorted_wrt (\<lambda>a b. sc_score b \<le> sc_score a) (sortByScore scoredList)
         \<and> (\<forall>k. filter (\<lambda>c. sc_score c = k) (sortByScore scoredList)
                 = filter (\<lambda>c. sc_score c = k) scoredList)
         \<and> map sc_place scoredList
             = take 20 (filter hasPlaceId cands) @ take 10 (filter (\<lambda>p. \<not> hasPlaceId p) cands)
         \<and> map (\<lambda>c. Inr (sc_score c)) scoredList
             = map (\<lambda>c. scorePlace (c_place c) (i_slots interp) (c_enrichedData c) loc)
                   (allCandidatesForRanking ev cands)"
proof -
  have "\<exists>r. response (recommendationTurn ev sess sid lname loc made interp) = Json r
            \<and> map r_id (results r) = map (place_id \<circ> sc_place) (rankTop5 scoredList)
            \<and> map r_score (results r) = map sc_score (rankTop5 scoredList)"
    using ne sc unfolding cands by (rule recommendationTurn_results)
  moreover have "map sc_place scoredList
             = take 20 (filter hasPlaceId cands) @ take 10 (filter (\<lambda>p. \<not> hasPlaceId p) cands)"
    using scoreAll_places [OF sc] by (simp add: pool_places)
  ultimately show ?thesis
    using sortByScore_descending [of scoredList] sortByScore_stable [of _ scoredList]
      scoreAll_scores [OF sc]
    by (simp add: rankTop5_def)
qed

theorem ranking_top5_witness:
  "[examplePlace, exampleLinked]
     = filterCandidates (getAllPlaces exampleEnv) (getAllPlaces exampleEnv)
         (i_slots (fallbackInterpretation emptySlots)) None
   \<and> [examplePlace, exampleLinked] \<noteq> []
   \<and> scoreAll (i_slots (fallbackInterpretation emptySlots)) None
        (allCandidatesForRanking exampleEnv [examplePlace, exampleLinked])
      = Inr [\<lparr> sc_place = exampleLinked, sc_enrichedData = Some exampleEnriched, sc_score = 10 \<rparr>,
             \<lparr> sc_place = examplePlace, sc_enrichedData = None, sc_score = 0 \<rparr>]
   \<and> (\<exists>r. response (recommendationTurn exampleEnv Map.empty ''s'' None None []
                        (fallbackInterpretation emptySlots)) = Json r
          \<and> map r_id (results r) = [''p2'', ''p1'']
          \<and> map r_score (results r) = [10, 0])"
proof -
  let ?sl = "i_slots (fallbackInterpretation emptySlots)"
  let ?scored = "[\<lparr> sc_place = exampleLinked, sc_enrichedData = Some exampleEnriched, sc_score = 10 \<rparr>,
             \<lparr> sc_place = examplePlace, sc_enrichedData = None, sc_score = 0 \<rparr>]"
  have sl: "?sl = emptySlots"
    by (simp add: fallbackInterpretation_def)
  have h1: "[examplePlace, exampleLinked]
     = filterCandidates (getAllPlaces exampleEnv) (getAllPlaces exampleEnv) ?sl None"
    unfolding sl by (simp add: turn_defs activePrice_def string_defs example_defs)
  have h2: "[examplePlace, exampleLinked] \<noteq> []"
    by simp
  have h3: "scoreAll ?sl None (allCandidatesForRanking exampleEnv [examplePlace, exampleLinked])
      = Inr ?scored"
    unfolding sl by (simp add: gate_defs score_defs string_defs example_defs)
  have h4: "take 5 (sortByScore ?scored) = ?scored"
    by (simp add: sortByScore_def)
  from ranking_top5 [OF h1 h2 h3, where sess = Map.empty and sid = "''s''" and made = "[]"]
    h1 h2 h3 show ?thesis
    unfolding h4 by (simp add: examplePlace_def exampleLinked_def)
qed

text \<open>
  Claim C2, as stated, fails: ties do not keep the filter's order. The filter returns
  the place \<open>p1\<close> (no identifier) before \<open>p3\<close> (identifier \<open>g9\<close>); both score 0;
  the result list has \<open>p3\<close> first.
\<close>

theorem ranking_tie_order_counterexample:
  "map place_id (filterCandidates [examplePlace, exampleOther] [examplePlace, exampleOther]
                   emptySlots None) = [''p1'', ''p3'']
   \<and> scoreAll emptySlots None
        (allCandidatesForRanking (exampleEnv\<lparr> getAllPlaces := [examplePlace, exampleOther] \<rparr>)
           [examplePlace, exampleOther])
      = Inr [\<lparr> sc_place = exampleOther, sc_enrichedData = None, sc_score = 0 \<rparr>,
             \<lparr> sc_place = examplePlace, sc_enrichedData = None, sc_score = 0 \<rparr>]
   \<and> (case response (handleChatSaved (exampleEnv\<lparr> getAllPlaces := [examplePlace, exampleOther] \<rparr>)
                        Map.empty \<lparr> req_message = Some ''find food'', req_context = None \<rparr>) of
         Json r \<Rightarrow> map r_id (results r)
       | _ \<Rightarrow> []) = [''p3'', ''p1'']"
  by (simp add: handler_defs turn_defs gate_defs score_defs string_defs example_defs)

section \<open>Intent interpreter: properties\<close>



section \<open>Explanation generator: properties\<close>

text \<open>
  Claim C5. If no credential is configured, or the provider call fails (the fetch
  rejects, the status is not ok, the body cannot be read), or the parsed answer is an
  array whose length differs from the number of candidates, the explanation generator
  returns the template explanation for every candidate, nothing of the provider's answer
  being merged in. The generator is a total function: it never raises.
\<close>

theorem explanations_fallback:
  assumes "getOpenRouterApiKey ev = None
           \<or> complete ev (ExplainPrompt top5Places sl) = FetchRejected
           \<or> complete ev (ExplainPrompt top5Places sl) = HttpNotOk
           \<or> complete ev (ExplainPrompt top5Places sl) = BodyUnreadable
           \<or> (\<exists>content explanations.
                 complete ev (ExplainPrompt top5Places sl) = Body content
                 \<and> jsonParse ev (jsonTextOf (CHR ''['') (CHR '']'') ''[]'' content)
                     = Some (JArray explanations)
                 \<and> length explanations \<noteq> length top5Places)"
  shows "generateBatchExplanations ev top5Places sl =
           map (\<lambda>c. ''Great '' @ orStr (primaryDisplayNameOf (sc_enrichedData c)) ''place'' @
                     '' with '' @
                     (case truthyNum (ratingOf (sc_enrichedData c)) of
                        None \<Rightarrow> ''good reviews''
                      | Some r \<Rightarrow> numberToString ev r @ starEmoji @ '' rating'') @ ''.'')
               top5Places"
  using assms
  by (auto simp add: generateBatchExplanations_def fallbackExplanations_def
      templateExplanation_def Let_def split: option.splits llm_response.splits json.splits)

theorem explanations_fallback_witness:
  "complete exampleEnvFour (ExplainPrompt exampleTop5 emptySlots) = Body (Some fourJson)
   \<and> jsonParse exampleEnvFour (jsonTextOf (CHR ''['') (CHR '']'') ''[]'' (Some fourJson))
       = Some (JArray [''a'', ''b'', ''c'', ''d''])
   \<and> length [''a'', ''b'', ''c'', ''d''] \<noteq> length exampleTop5
   \<and> generateBatchExplanations exampleEnvFour exampleTop5 emptySlots =
       [''Great place with 5'' @ starEmoji @ '' rating.'', ''Great place with good reviews.'',
        ''Great place with good reviews.'', ''Great place with good reviews.'',
        ''Great place with good reviews.'']"
proof -
  have w1: "complete exampleEnvFour (ExplainPrompt exampleTop5 emptySlots) = Body (Some fourJson)"
    by (simp add: exampleEnvFour_def exampleEnv_def)
  have w2: "jsonParse exampleEnvFour (jsonTextOf (CHR ''['') (CHR '']'') ''[]'' (Some fourJson))
       = Some (JArray [''a'', ''b'', ''c'', ''d''])"
    by (simp add: exampleEnvFour_def exampleEnv_def jsonTextOf_def matchDelimited_def orStr_def
        truthyStr_def fourJson_def)
  have w3: "length [''a'', ''b'', ''c'', ''d''] \<noteq> length exampleTop5"
    by (simp add: exampleTop5_def)
  have w4: "numberToString exampleEnvFour 5 = ''5''"
    by (simp add: exampleEnvFour_def exampleEnv_def)
  from w1 w2 w3
  have "generateBatchExplanations exampleEnvFour exampleTop5 emptySlots =
           map (\<lambda>c. ''Great '' @ orStr (primaryDisplayNameOf (sc_enrichedData c)) ''place'' @
                     '' with '' @
                     (case truthyNum (ratingOf (sc_enrichedData c)) of
                        None \<Rightarrow> ''good reviews''
                      | Some r \<Rightarrow> numberToString exampleEnvFour r @ starEmoji @ '' rating'') @ ''.'')
               exampleTop5"
    by (intro explanations_fallback) blast
  then show ?thesis
    using w1 w2 w3
    by (simp add: exampleTop5_def exampleScored_def exampleEnriched_def w4 orStr_def truthyStr_def
        truthyNum_def ratingOf_def primaryDisplayNameOf_def)
qed

section \<open>Chat orchestrator: properties\<close>

lemma isGreeting_examples:
  "isGreeting ''hi'' \<and> isGreeting ''Hello there!'' \<and> isGreeting ''  HOWDY  ''
   \<and> isGreeting ''hey, anyone home?'' \<and> \<not> isGreeting ''high noon''
   \<and> \<not> isGreeting ''find food'' \<and> \<not> isGreeting ''hi there can you find me some sushi''"
  by (simp add: handler_defs string_defs)

text \<open>
  Claim C9. For a message that the greeting test accepts (one of the greeting words at
  the start, followed by white space, the end or one of \<open>!.,?\<close>, and at most 5 tokens;
  \<open>hi\<close> is one), arriving on a session whose slots have no key, the handler answers
  with the canned welcome and no results, calls neither the interpreter nor any other
  component, and leaves the session map as it was.
\<close>

theorem greeting_short_circuit:
  assumes "req_message req = Some msg"
      and "isGreeting msg"
      and "slotKeys (sessionSlotsOf ev sess req) = []"
  shows "handleChatSaved ev sess req =
           \<lparr> response = Json \<lparr> mode = ''recommendations'',
               resp_assistantMessage =
                 ''Hi there! I can help you find places from your saved list. To get started, what kind of place are you looking for?'',
               updatedSlots = sessionSlotsOf ev sess req, results = [], optionalQuestion = Null \<rparr>,
             sessions = sess, calls = [] \<rparr>"
proof -
  have "\<not> isGreeting []"
    by (simp add: handler_defs string_defs)
  with assms(2) have "msg \<noteq> []" by auto
  with assms show ?thesis
    by (simp add: handleChatSaved_def truthyStr_def Let_def)
qed

theorem greeting_short_circuit_witness:
  "req_message \<lparr> req_message = Some ''hi'', req_context = None \<rparr> = Some ''hi''
   \<and> isGreeting ''hi''
   \<and> slotKeys (sessionSlotsOf exampleEnv Map.empty \<lparr> req_message = Some ''hi'', req_context = None \<rparr>) = []
   \<and> handleChatSaved exampleEnv Map.empty \<lparr> req_message = Some ''hi'', req_context = None \<rparr> =
           \<lparr> response = Json \<lparr> mode = ''recommendations'',
               resp_assistantMessage =
                 ''Hi there! I can help you find places from your saved list. To get started, what kind of place are you looking for?'',
               updatedSlots = emptySlots, results = [], optionalQuestion = Null \<rparr>,
             sessions = Map.empty, calls = [] \<rparr>"
proof -
  let ?req = "\<lparr> req_message = Some ''hi'', req_context = None \<rparr>"
  have g1: "req_message ?req = Some ''hi''" by simp
  have g2: "isGreeting ''hi''"
    by (simp add: handler_defs string_defs)
  have g3: "sessionSlotsOf exampleEnv Map.empty ?req = emptySlots"
    by (simp add: sessionSlotsOf_def contextOf_def)
  have g4: "slotKeys (sessionSlotsOf exampleEnv Map.empty ?req) = []"
    unfolding g3 by (simp add: slotKeys_def present_def emptySlots_def)
  from greeting_short_circuit [OF g1 g2 g4] g1 g2 g4 show ?thesis
    unfolding g3 by simp
qed

end
